theory Spec2Isabelle
  imports Main
begin

section \<open>Strings and numbers of the host language\<close>

text \<open>
  A string is a list of \<^typ>\<open>char\<close>; each \<^typ>\<open>char\<close> stands for one UTF-16 code unit
  below 256 (the Latin-1 range). A \<^verbatim>\<open>number\<close> is modelled as an \<^typ>\<open>int\<close>: the
  model covers the integer-valued numbers, and is exact on the safe integers
  (magnitude at most \<open>2^53 - 1\<close>), where \<^verbatim>\<open>Number.prototype.toString\<close> prints plain
  decimal digits and \<^verbatim>\<open>parseInt\<close> reads them back without rounding.
\<close>

definition MAX_SAFE_INTEGER :: int where
  "MAX_SAFE_INTEGER = 9007199254740991"

definition isSafeInteger :: "int \<Rightarrow> bool" where
  "isSafeInteger n = (- MAX_SAFE_INTEGER \<le> n \<and> n \<le> MAX_SAFE_INTEGER)"

text \<open>\<^verbatim>\<open>String.prototype.toLowerCase\<close> on code units below 256: A-Z and the Latin-1
  capitals U+00C0..U+00DE (without the multiplication sign U+00D7) move up by 32.\<close>

definition toLowerCase_char :: "char \<Rightarrow> char" where
  "toLowerCase_char c =
     (let n = (of_char c :: nat)
      in if (65 \<le> n \<and> n \<le> 90) \<or> (192 \<le> n \<and> n \<le> 222 \<and> n \<noteq> 215)
         then char_of (n + 32) else c)"

definition toLowerCase :: "string \<Rightarrow> string" where
  "toLowerCase s = map toLowerCase_char s"

text \<open>The white space and line terminators that \<^verbatim>\<open>parseInt\<close> strips, below 256:
  TAB, LF, VT, FF, CR, SPACE, NBSP.\<close>

definition isStrWhiteSpaceChar :: "char \<Rightarrow> bool" where
  "isStrWhiteSpaceChar c =
     (let n = (of_char c :: nat)
      in n = 9 \<or> n = 10 \<or> n = 11 \<or> n = 12 \<or> n = 13 \<or> n = 32 \<or> n = 160)"

definition isDigit :: "char \<Rightarrow> bool" where
  "isDigit c = (let n = (of_char c :: nat) in 48 \<le> n \<and> n \<le> 57)"

definition digitValue :: "char \<Rightarrow> nat" where
  "digitValue c = of_char c - 48"

definition decimalValue :: "string \<Rightarrow> nat" where
  "decimalValue z = foldl (\<lambda>acc c. 10 * acc + digitValue c) 0 z"

text \<open>\<^verbatim>\<open>parseInt(s, 10)\<close>: strip leading white space, read an optional sign, take the
  longest prefix of decimal digits; \<open>None\<close> is \<^verbatim>\<open>NaN\<close> (no digit found).\<close>

definition parseInt :: "string \<Rightarrow> int option" where
  "parseInt s =
     (let S = dropWhile isStrWhiteSpaceChar s;
          sign = (case S of [] \<Rightarrow> (1::int) | c # _ \<Rightarrow> if c = CHR ''-'' then - 1 else 1);
          S' = (case S of [] \<Rightarrow> [] | c # r \<Rightarrow> if c = CHR ''+'' \<or> c = CHR ''-'' then r else S);
          Z = takeWhile isDigit S'
      in if Z = [] then None else Some (sign * int (decimalValue Z)))"

fun digitsOf :: "nat \<Rightarrow> string" where
  "digitsOf n =
     (if n < 10 then [char_of (48 + n)]
      else digitsOf (n div 10) @ [char_of (48 + n mod 10)])"

declare digitsOf.simps [simp del]

text \<open>\<^verbatim>\<open>value.toString()\<close> of an integer-valued number (plain decimal digits, which is
  what the host prints for every safe integer).\<close>

definition numberToString :: "int \<Rightarrow> string" where
  "numberToString n =
     (if n < 0 then CHR ''-'' # digitsOf (nat (- n)) else digitsOf (nat n))"

section \<open>Configuration (config.ts)\<close>

datatype network = Testnet | Mainnet

record vdxf_labels =
  sha256 :: string
  title :: string
  description :: string
  filename :: string
  filesize :: string

record vdxf_keys =
  dataDescriptor :: string
  proofBasic :: string
  labels :: vdxf_labels

definition TESTNET_labels :: vdxf_labels where
  "TESTNET_labels =
     \<lparr> sha256 = ''iBCkvv7KC18xd3P164Cvw1pxpLo5FyGEtm'',
       title = ''iHXGu1nW4jQoeooBHPGE58qQGf9wMakEtj'',
       description = ''iP1PCTTHPpktP26xTEu1BuwENWMHQaia4D'',
       filename = ''i4xgBqX9btMX8tnAjsyVFrgSLnigxPwBw5'',
       filesize = ''iRz2tyZZEwmrxRPSrwN8UTAC8g5KyVkBiE'' \<rparr>"

definition MAINNET_labels :: vdxf_labels where
  "MAINNET_labels =
     \<lparr> sha256 = '''', title = '''', description = '''', filename = '''', filesize = '''' \<rparr>"

text \<open>\<^verbatim>\<open>VDXF_KEYS\<close>: the wrapper key is shared, the rest is spread from
  \<^verbatim>\<open>TESTNET_VDXF\<close> or \<^verbatim>\<open>MAINNET_VDXF\<close> (whose keys are still empty strings).\<close>

definition VDXF_KEYS :: "network \<Rightarrow> vdxf_keys" where
  "VDXF_KEYS net =
     (case net of
        Testnet \<Rightarrow> \<lparr> dataDescriptor = ''i4GC1YGEVD21afWudGoFJVdnfjJ5XWnCQv'',
                     proofBasic = ''i6UD4js3jqyjz9Mttmbk2Sh4eCuwLKPLyQ'',
                     labels = TESTNET_labels \<rparr>
      | Mainnet \<Rightarrow> \<lparr> dataDescriptor = ''i4GC1YGEVD21afWudGoFJVdnfjJ5XWnCQv'',
                     proofBasic = '''',
                     labels = MAINNET_labels \<rparr>)"

record rpc_config =
  endpoint :: string
  fallbackEndpoint :: string
  chainId :: string
  timeout :: int

definition VERUS_RPC :: "network \<Rightarrow> rpc_config" where
  "VERUS_RPC net =
     (case net of
        Testnet \<Rightarrow> \<lparr> endpoint = ''https://api.verustest.net'',
                     fallbackEndpoint = ''https://rpc.vrsc.syncproof.net'',
                     chainId = ''vrsctest'', timeout = 30000 \<rparr>
      | Mainnet \<Rightarrow> \<lparr> endpoint = ''https://api.verus.services'',
                     fallbackEndpoint = ''https://rpc.vrsc.syncproof.net'',
                     chainId = ''vrsc'', timeout = 30000 \<rparr>)"

section \<open>The VDXF record codec (vdxf.ts)\<close>

subsection \<open>Data\<close>

text \<open>\<^verbatim>\<open>objectdata: { message: string } | number | null\<close>.\<close>

datatype objectdata = Message string | Num int | Null

text \<open>\<^verbatim>\<open>DataDescriptor\<close>. \<open>flags\<close> is optional in the model because
  \<^verbatim>\<open>buildDataDescriptor\<close> builds descriptors without it.\<close>

record DataDescriptor =
  dd_version :: int
  dd_flags :: "int option"
  dd_objectdata :: objectdata
  dd_label :: "string option"
  dd_mimetype :: "string option"

type_synonym DataDescriptorWrapper = "string \<rightharpoonup> DataDescriptor"

type_synonym ContentMultiMap = "string \<rightharpoonup> DataDescriptorWrapper list"

record TimestampData =
  td_sha256 :: string
  td_title :: string
  td_description :: "string option"
  td_filename :: "string option"
  td_filesize :: "int option"

type_synonym CreateTimestampInput = TimestampData

text \<open>\<^verbatim>\<open>Partial<TimestampData>\<close>: the object the decoding loop fills.\<close>

record PartialTimestampData =
  p_sha256 :: "string option"
  p_title :: "string option"
  p_description :: "string option"
  p_filename :: "string option"
  p_filesize :: "int option"

record TimestampRecord =
  tr_data :: TimestampData
  tr_blockhash :: string
  tr_blockheight :: int
  tr_blocktime :: "int option"
  tr_txid :: string

record IdentityData =
  id_version :: int
  id_flags :: int
  id_name :: string
  id_identityaddress :: string
  id_parent :: string
  id_contentmultimap :: "ContentMultiMap option"

record IdentityHistoryEntry =
  he_identity :: IdentityData
  he_blockhash :: string
  he_height :: int
  he_output_txid :: string
  he_output_voutnum :: int

subsection \<open>Parsing functions\<close>

definition isDeleted :: "DataDescriptor \<Rightarrow> bool" where
  "isDeleted descriptor = (dd_objectdata descriptor = Null \<or> dd_flags descriptor = Some 32)"

definition extractStringValue :: "DataDescriptor \<Rightarrow> string option" where
  "extractStringValue descriptor =
     (case dd_objectdata descriptor of
        Null \<Rightarrow> None
      | Message m \<Rightarrow> Some m
      | Num _ \<Rightarrow> None)"

definition extractNumberValue :: "DataDescriptor \<Rightarrow> int option" where
  "extractNumberValue descriptor =
     (case dd_objectdata descriptor of
        Num n \<Rightarrow> Some n
      | Message msg \<Rightarrow> parseInt msg
      | Null \<Rightarrow> None)"

text \<open>One iteration of the loop of \<^verbatim>\<open>parseTimestampData\<close>: the two \<^verbatim>\<open>continue\<close>
  guards, then the chain of label comparisons in the order of the source.\<close>

definition parseStep :: "vdxf_keys \<Rightarrow> PartialTimestampData \<Rightarrow> DataDescriptorWrapper \<Rightarrow> PartialTimestampData" where
  "parseStep keys data wrapper =
     (case wrapper (dataDescriptor keys) of
        None \<Rightarrow> data
      | Some descriptor \<Rightarrow>
          if isDeleted descriptor then data
          else (case dd_label descriptor of
                  None \<Rightarrow> data
                | Some label \<Rightarrow>
                    if label = [] then data
                    else if label = sha256 (labels keys)
                      then data\<lparr>p_sha256 := extractStringValue descriptor\<rparr>
                    else if label = title (labels keys)
                      then data\<lparr>p_title := extractStringValue descriptor\<rparr>
                    else if label = description (labels keys)
                      then data\<lparr>p_description := extractStringValue descriptor\<rparr>
                    else if label = filename (labels keys)
                      then data\<lparr>p_filename := extractStringValue descriptor\<rparr>
                    else if label = filesize (labels keys)
                      then data\<lparr>p_filesize := extractNumberValue descriptor\<rparr>
                    else data))"

definition emptyPartial :: PartialTimestampData where
  "emptyPartial = \<lparr> p_sha256 = None, p_title = None, p_description = None,
                     p_filename = None, p_filesize = None \<rparr>"

definition parseLoop :: "vdxf_keys \<Rightarrow> DataDescriptorWrapper list \<Rightarrow> PartialTimestampData" where
  "parseLoop keys entries = foldl (parseStep keys) emptyPartial entries"

text \<open>\<^verbatim>\<open>!data.sha256\<close> holds for \<^verbatim>\<open>undefined\<close> and for the empty string.\<close>

definition falsyString :: "string option \<Rightarrow> bool" where
  "falsyString v = (case v of None \<Rightarrow> True | Some s \<Rightarrow> s = [])"

definition parseTimestampData :: "network \<Rightarrow> DataDescriptorWrapper list \<Rightarrow> TimestampData option" where
  "parseTimestampData net entries =
     (let data = parseLoop (VDXF_KEYS net) entries
      in if falsyString (p_sha256 data) \<or> falsyString (p_title data) then None
         else Some \<lparr> td_sha256 = the (p_sha256 data), td_title = the (p_title data),
                     td_description = p_description data, td_filename = p_filename data,
                     td_filesize = p_filesize data \<rparr>)"

definition parseHistoryEntry :: "network \<Rightarrow> IdentityHistoryEntry \<Rightarrow> TimestampRecord option" where
  "parseHistoryEntry net entry =
     (case id_contentmultimap (he_identity entry) of
        None \<Rightarrow> None
      | Some contentmultimap \<Rightarrow>
          (case contentmultimap (proofBasic (VDXF_KEYS net)) of
             None \<Rightarrow> None
           | Some entries \<Rightarrow>
               if entries = [] then None
               else (case parseTimestampData net entries of
                       None \<Rightarrow> None
                     | Some data \<Rightarrow>
                         Some \<lparr> tr_data = data, tr_blockhash = he_blockhash entry,
                                 tr_blockheight = he_height entry, tr_blocktime = None,
                                 tr_txid = he_output_txid entry \<rparr>)))"

fun findTimestampByHash_loop :: "network \<Rightarrow> string \<Rightarrow> IdentityHistoryEntry list \<Rightarrow> TimestampRecord option" where
  "findTimestampByHash_loop net normalizedHash [] = None"
| "findTimestampByHash_loop net normalizedHash (entry # rest) =
     (case parseHistoryEntry net entry of
        None \<Rightarrow> findTimestampByHash_loop net normalizedHash rest
      | Some record \<Rightarrow>
          if toLowerCase (td_sha256 (tr_data record)) = normalizedHash then Some record
          else findTimestampByHash_loop net normalizedHash rest)"

definition findTimestampByHash :: "network \<Rightarrow> IdentityHistoryEntry list \<Rightarrow> string \<Rightarrow> TimestampRecord option" where
  "findTimestampByHash net history sha = findTimestampByHash_loop net (toLowerCase sha) history"

subsection \<open>Building functions\<close>

datatype string_or_number = Str string | Number int

definition buildDataDescriptor :: "vdxf_keys \<Rightarrow> string \<Rightarrow> string_or_number \<Rightarrow> string \<Rightarrow> DataDescriptorWrapper" where
  "buildDataDescriptor keys label val mimetype =
     (let objectdata = (case val of Number n \<Rightarrow> Message (numberToString n) | Str s \<Rightarrow> Message s)
      in [dataDescriptor keys \<mapsto>
            \<lparr> dd_version = 1, dd_flags = None, dd_objectdata = objectdata,
              dd_label = Some label, dd_mimetype = Some mimetype \<rparr>])"

text \<open>The entry list that \<^verbatim>\<open>buildTimestampContentMap\<close> pushes together; \<^verbatim>\<open>if (input.description)\<close>
  is false for an absent and for an empty string.\<close>

definition buildEntries :: "network \<Rightarrow> CreateTimestampInput \<Rightarrow> DataDescriptorWrapper list" where
  "buildEntries net input =
     (let keys = VDXF_KEYS net in
      [buildDataDescriptor keys (sha256 (labels keys)) (Str (td_sha256 input)) ''text/plain'',
       buildDataDescriptor keys (title (labels keys)) (Str (td_title input)) ''text/plain'']
      @ (if falsyString (td_description input) then []
         else [buildDataDescriptor keys (description (labels keys)) (Str (the (td_description input))) ''text/plain''])
      @ (if falsyString (td_filename input) then []
         else [buildDataDescriptor keys (filename (labels keys)) (Str (the (td_filename input))) ''text/plain''])
      @ (case td_filesize input of
           None \<Rightarrow> []
         | Some n \<Rightarrow> [buildDataDescriptor keys (filesize (labels keys)) (Number n) ''text/plain'']))"

definition buildTimestampContentMap :: "network \<Rightarrow> CreateTimestampInput \<Rightarrow> ContentMultiMap" where
  "buildTimestampContentMap net input = [proofBasic (VDXF_KEYS net) \<mapsto> buildEntries net input]"

subsection \<open>The vocabulary of the specification, for entries\<close>

text \<open>A tombstoned entry: its descriptor has a null payload or flags 32.\<close>

definition tombstoned :: "vdxf_keys \<Rightarrow> DataDescriptorWrapper \<Rightarrow> bool" where
  "tombstoned keys wrapper =
     (case wrapper (dataDescriptor keys) of None \<Rightarrow> False | Some descriptor \<Rightarrow> isDeleted descriptor)"

text \<open>The set left after filtering out the tombstoned entries lacks an entry labelled \<open>l\<close>.\<close>

definition lacksEntry :: "vdxf_keys \<Rightarrow> string \<Rightarrow> DataDescriptorWrapper list \<Rightarrow> bool" where
  "lacksEntry keys l entries =
     (\<not> list_ex (\<lambda>wrapper. case wrapper (dataDescriptor keys) of
                              None \<Rightarrow> False
                            | Some descriptor \<Rightarrow> dd_label descriptor = Some l)
                (filter (\<lambda>wrapper. \<not> tombstoned keys wrapper) entries))"

text \<open>The descriptor of an entry that the decoding loop looks at: present under the
  wrapper key, not tombstoned, with a non-empty label.\<close>

definition liveDescriptor :: "vdxf_keys \<Rightarrow> DataDescriptorWrapper \<Rightarrow> DataDescriptor option" where
  "liveDescriptor keys wrapper =
     (case wrapper (dataDescriptor keys) of
        None \<Rightarrow> None
      | Some descriptor \<Rightarrow>
          if isDeleted descriptor then None
          else (case dd_label descriptor of
                  None \<Rightarrow> None
                | Some label \<Rightarrow> if label = [] then None else Some descriptor))"

text \<open>The last live descriptor of the list that bears the label \<open>l\<close>.\<close>

fun lastLabelled :: "vdxf_keys \<Rightarrow> string \<Rightarrow> DataDescriptorWrapper list \<Rightarrow> DataDescriptor option" where
  "lastLabelled keys l [] = None"
| "lastLabelled keys l (wrapper # rest) =
     (case lastLabelled keys l rest of
        Some descriptor \<Rightarrow> Some descriptor
      | None \<Rightarrow>
          (case liveDescriptor keys wrapper of
             None \<Rightarrow> None
           | Some descriptor \<Rightarrow> if dd_label descriptor = Some l then Some descriptor else None))"

text \<open>What the two extraction functions give on that descriptor (\<open>None\<close> is
  \<^verbatim>\<open>undefined\<close>, also when there is no such descriptor).\<close>

definition lastStringValue :: "vdxf_keys \<Rightarrow> string \<Rightarrow> DataDescriptorWrapper list \<Rightarrow> string option" where
  "lastStringValue keys l entries =
     (case lastLabelled keys l entries of None \<Rightarrow> None | Some descriptor \<Rightarrow> extractStringValue descriptor)"

definition lastNumberValue :: "vdxf_keys \<Rightarrow> string \<Rightarrow> DataDescriptorWrapper list \<Rightarrow> int option" where
  "lastNumberValue keys l entries =
     (case lastLabelled keys l entries of None \<Rightarrow> None | Some descriptor \<Rightarrow> extractNumberValue descriptor)"

text \<open>Two field labels of a key set coincide only when they are empty (true of both
  networks: the test network's labels differ, the main network's are all empty).\<close>

definition labelsApart :: "vdxf_keys \<Rightarrow> bool" where
  "labelsApart keys =
     (let L = labels keys in
      (title L = [] \<or> title L \<noteq> sha256 L) \<and>
      (description L = [] \<or> (description L \<noteq> sha256 L \<and> description L \<noteq> title L)) \<and>
      (filename L = [] \<or> (filename L \<noteq> sha256 L \<and> filename L \<noteq> title L
          \<and> filename L \<noteq> description L)) \<and>
      (filesize L = [] \<or> (filesize L \<noteq> sha256 L \<and> filesize L \<noteq> title L
          \<and> filesize L \<noteq> description L \<and> filesize L \<noteq> filename L)))"

text \<open>An on-chain entry as the daemon returns it: one descriptor under the wrapper key,
  with flags, a payload and a label.\<close>

definition chainEntry :: "network \<Rightarrow> string \<Rightarrow> int \<Rightarrow> objectdata \<Rightarrow> DataDescriptorWrapper" where
  "chainEntry net l fl payload =
     [dataDescriptor (VDXF_KEYS net) \<mapsto>
        \<lparr> dd_version = 1, dd_flags = Some fl, dd_objectdata = payload,
          dd_label = Some l, dd_mimetype = Some ''text/plain'' \<rparr>]"

text \<open>A record restricted to what the wire format carries: an empty optional string
  is not emitted, so it comes back absent.\<close>

definition carried :: "string option \<Rightarrow> string option" where
  "carried v = (if falsyString v then None else v)"

definition wireView :: "TimestampData \<Rightarrow> TimestampData" where
  "wireView d = d\<lparr> td_description := carried (td_description d),
                    td_filename := carried (td_filename d) \<rparr>"

section \<open>The pending-timestamp registry (server/timestamp.ts)\<close>

record PendingTimestampRequest =
  pr_requestId :: string
  pr_userIdentity :: string
  pr_timestampData :: CreateTimestampInput
  pr_createdAt :: int
  pr_expiresAt :: int

record CompletedTimestamp =
  ct_txid :: string
  ct_completedAt :: int
  ct_expiresAt :: int

text \<open>The two module-level maps. Times are \<^verbatim>\<open>Date.now()\<close> readings in milliseconds,
  passed in as \<open>now\<close>; the reads of one call are taken at the same instant.\<close>

record timestamp_store =
  pendingTimestampRequests :: "string \<rightharpoonup> PendingTimestampRequest"
  completedTimestamps :: "string \<rightharpoonup> CompletedTimestamp"

datatype status = Pending | Completed | Expired

record timestamp_result =
  status :: status
  txid :: "string option"

text \<open>The \<^verbatim>\<open>setInterval\<close> callback: both maps lose the entries with \<^verbatim>\<open>now > expiresAt\<close>.\<close>

definition sweepMap :: "('v \<Rightarrow> int) \<Rightarrow> int \<Rightarrow> (string \<rightharpoonup> 'v) \<Rightarrow> (string \<rightharpoonup> 'v)" where
  "sweepMap expiry now m =
     (\<lambda>id. case m id of None \<Rightarrow> None | Some e \<Rightarrow> if now > expiry e then None else Some e)"

definition timestampSweep :: "int \<Rightarrow> timestamp_store \<Rightarrow> timestamp_store" where
  "timestampSweep now st =
     st\<lparr> pendingTimestampRequests := sweepMap pr_expiresAt now (pendingTimestampRequests st),
         completedTimestamps := sweepMap ct_expiresAt now (completedTimestamps st) \<rparr>"

text \<open>The registry write at the end of \<^verbatim>\<open>createTimestampRequest\<close> (the configuration
  checks, the identity lookup and the signing before it are external and may throw
  before the write).\<close>

definition createTimestampRequest_store ::
  "int \<Rightarrow> string \<Rightarrow> string \<Rightarrow> CreateTimestampInput \<Rightarrow> timestamp_store \<Rightarrow> timestamp_store" where
  "createTimestampRequest_store now requestId userIdentityAddress timestampData st =
     st\<lparr> pendingTimestampRequests := (pendingTimestampRequests st)(requestId \<mapsto>
           \<lparr> pr_requestId = requestId, pr_userIdentity = userIdentityAddress,
             pr_timestampData = timestampData, pr_createdAt = now,
             pr_expiresAt = now + 10 * 60 * 1000 \<rparr>) \<rparr>"

definition getTimestampResult :: "int \<Rightarrow> string \<Rightarrow> timestamp_store \<Rightarrow> timestamp_result \<times> timestamp_store" where
  "getTimestampResult now requestId st =
     (case completedTimestamps st requestId of
        Some done \<Rightarrow> (\<lparr> status = Completed, txid = Some (ct_txid done) \<rparr>, st)
      | None \<Rightarrow>
          (case pendingTimestampRequests st requestId of
             Some request \<Rightarrow>
               if now > pr_expiresAt request
               then (\<lparr> status = Expired, txid = None \<rparr>,
                     st\<lparr> pendingTimestampRequests := (pendingTimestampRequests st)(requestId := None) \<rparr>)
               else (\<lparr> status = Pending, txid = None \<rparr>, st)
           | None \<Rightarrow> (\<lparr> status = Expired, txid = None \<rparr>, st)))"

definition isTimestampRequestActive :: "string \<Rightarrow> timestamp_store \<Rightarrow> bool" where
  "isTimestampRequestActive requestId st =
     (pendingTimestampRequests st requestId \<noteq> None \<or> completedTimestamps st requestId \<noteq> None)"

definition storeTimestampResult :: "int \<Rightarrow> string \<Rightarrow> string \<Rightarrow> timestamp_store \<Rightarrow> bool \<times> timestamp_store" where
  "storeTimestampResult now requestId tx st =
     (True,
      st\<lparr> pendingTimestampRequests := (pendingTimestampRequests st)(requestId := None),
          completedTimestamps := (completedTimestamps st)(requestId \<mapsto>
            \<lparr> ct_txid = tx, ct_completedAt = now, ct_expiresAt = now + 5 * 60 * 1000 \<rparr>) \<rparr>)"

section \<open>The login registry (server/auth.ts)\<close>

record PendingChallenge =
  pc_sessionId :: string
  pc_createdAt :: int
  pc_expiresAt :: int

record CompletedAuth =
  ca_identity :: string
  ca_friendlyName :: string
  ca_completedAt :: int
  ca_expiresAt :: int

record auth_store =
  pendingChallenges :: "string \<rightharpoonup> PendingChallenge"
  completedAuths :: "string \<rightharpoonup> CompletedAuth"

record auth_result =
  ar_identity :: string
  ar_friendlyName :: string

definition authSweep :: "int \<Rightarrow> auth_store \<Rightarrow> auth_store" where
  "authSweep now st =
     st\<lparr> pendingChallenges := sweepMap pc_expiresAt now (pendingChallenges st),
         completedAuths := sweepMap ca_expiresAt now (completedAuths st) \<rparr>"

text \<open>The two registry writes of a successful \<^verbatim>\<open>verifyLoginResponse\<close>: the used
  challenge is removed and the completed authentication is stored for five minutes.\<close>

definition verifyLoginResponse_store ::
  "int \<Rightarrow> string \<Rightarrow> string \<Rightarrow> string \<Rightarrow> auth_store \<Rightarrow> auth_store" where
  "verifyLoginResponse_store now challengeId signingId friendlyName st =
     st\<lparr> pendingChallenges := (pendingChallenges st)(challengeId := None),
         completedAuths := (completedAuths st)(challengeId \<mapsto>
           \<lparr> ca_identity = signingId, ca_friendlyName = friendlyName,
             ca_completedAt = now, ca_expiresAt = now + 5 * 60 * 1000 \<rparr>) \<rparr>"

text \<open>\<^verbatim>\<open>getAuthResult(challengeId, consume = true)\<close>; the default of \<open>consume\<close> is
  written out by the caller below.\<close>

definition getAuthResult :: "string \<Rightarrow> bool \<Rightarrow> auth_store \<Rightarrow> auth_result option \<times> auth_store" where
  "getAuthResult challengeId consume st =
     (case completedAuths st challengeId of
        None \<Rightarrow> (None, st)
      | Some auth \<Rightarrow>
          (Some \<lparr> ar_identity = ca_identity auth, ar_friendlyName = ca_friendlyName auth \<rparr>,
           if consume then st\<lparr> completedAuths := (completedAuths st)(challengeId := None) \<rparr> else st))"

definition isChallengeActive :: "string \<Rightarrow> auth_store \<Rightarrow> bool" where
  "isChallengeActive challengeId st =
     (pendingChallenges st challengeId \<noteq> None \<or> completedAuths st challengeId \<noteq> None)"

text \<open>The poll of the login registry, \<^verbatim>\<open>GET /api/auth/status?challengeId=\<close>, for a
  non-empty challenge id: it calls \<^verbatim>\<open>getAuthResult(challengeId)\<close>, so \<open>consume\<close> has its
  default \<open>True\<close>.\<close>

record auth_status =
  as_status :: status
  as_identity :: "string option"
  as_friendlyName :: "string option"

definition authStatusGET :: "string \<Rightarrow> auth_store \<Rightarrow> auth_status \<times> auth_store" where
  "authStatusGET challengeId st =
     (case getAuthResult challengeId True st of
        (Some result, st') \<Rightarrow>
          (\<lparr> as_status = Completed, as_identity = Some (ar_identity result),
             as_friendlyName = Some (ar_friendlyName result) \<rparr>, st')
      | (None, st') \<Rightarrow>
          if isChallengeActive challengeId st'
          then (\<lparr> as_status = Pending, as_identity = None, as_friendlyName = None \<rparr>, st')
          else (\<lparr> as_status = Expired, as_identity = None, as_friendlyName = None \<rparr>, st'))"

section \<open>The RPC gateway (server/verus.ts)\<close>

text \<open>Everything a call can throw: a \<^verbatim>\<open>VerusRpcError\<close> with the daemon's code and
  message, or any other \<^verbatim>\<open>Error\<close> (a rejected fetch, the abort at the timeout, a
  non-2xx status, a body that is not JSON).\<close>

datatype js_error = Error string | VerusRpcError int string

record 'p RpcRequest =
  rq_jsonrpc :: string
  rq_id :: string
  rq_method :: string
  rq_params :: "'p list"

record 'a RpcResponse =
  rs_result :: "'a option"
  rs_error :: "(int \<times> string) option"
  rs_id :: string

text \<open>What \<^verbatim>\<open>fetch\<close> does: it rejects, or it resolves to a response with \<^verbatim>\<open>ok\<close>,
  \<^verbatim>\<open>status\<close>, \<^verbatim>\<open>statusText\<close> and a body that parses as JSON or does not.\<close>

datatype 'a fetch_outcome =
    FetchRejects string
  | HttpResponse bool int string "string + 'a RpcResponse"

text \<open>The outside world: the outcome of the \<open>k\<close>-th fetch of the run, the clock at the
  \<open>k\<close>-th fetch, and the log of the fetches made so far (endpoint and request).\<close>

record ('p, 'a) world =
  respond :: "nat \<Rightarrow> string \<Rightarrow> 'p RpcRequest \<Rightarrow> 'a fetch_outcome"
  clock :: "nat \<Rightarrow> int"
  fetches :: "(string \<times> 'p RpcRequest) list"

definition rpcRequest :: "('p, 'a) world \<Rightarrow> string \<Rightarrow> 'p list \<Rightarrow> 'p RpcRequest" where
  "rpcRequest w method params =
     \<lparr> rq_jsonrpc = ''1.0'',
       rq_id = ''vtimestamp-'' @ numberToString (clock w (length (fetches w))),
       rq_method = method, rq_params = params \<rparr>"

definition logFetch :: "string \<Rightarrow> 'p RpcRequest \<Rightarrow> ('p, 'a) world \<Rightarrow> ('p, 'a) world" where
  "logFetch url request w = w\<lparr> fetches := fetches w @ [(url, request)] \<rparr>"

definition rpcCallToEndpoint ::
  "string \<Rightarrow> string \<Rightarrow> 'p list \<Rightarrow> ('p, 'a) world \<Rightarrow> (js_error + 'a option) \<times> ('p, 'a) world" where
  "rpcCallToEndpoint url method params w =
     (let request = rpcRequest w method params;
          w' = logFetch url request w
      in case respond w (length (fetches w)) url request of
           FetchRejects reason \<Rightarrow> (Inl (Error reason), w')
         | HttpResponse ok code statusText body \<Rightarrow>
             if \<not> ok
             then (Inl (Error (''RPC HTTP error: '' @ numberToString code @ '' '' @ statusText)), w')
             else (case body of
                     Inl reason \<Rightarrow> (Inl (Error reason), w')
                   | Inr payload \<Rightarrow>
                       (case rs_error payload of
                          Some (code, message) \<Rightarrow> (Inl (VerusRpcError code message), w')
                        | None \<Rightarrow> (Inr (rs_result payload), w'))))"

definition rpcCall ::
  "network \<Rightarrow> string \<Rightarrow> 'p list \<Rightarrow> ('p, 'a) world \<Rightarrow> (js_error + 'a option) \<times> ('p, 'a) world" where
  "rpcCall net method params w =
     (case rpcCallToEndpoint (endpoint (VERUS_RPC net)) method params w of
        (Inr r, w') \<Rightarrow> (Inr r, w')
      | (Inl err, w') \<Rightarrow>
          (case err of
             VerusRpcError code message \<Rightarrow> (Inl err, w')
           | Error reason \<Rightarrow>
               if fallbackEndpoint (VERUS_RPC net) \<noteq> []
               then rpcCallToEndpoint (fallbackEndpoint (VERUS_RPC net)) method params w'
               else (Inl err, w')))"

text \<open>The transport failures of a fetch: it rejects (connection refused, the abort at
  the timeout) or the status is not 2xx.\<close>

definition transportFailure :: "'a fetch_outcome \<Rightarrow> bool" where
  "transportFailure outcome =
     (case outcome of FetchRejects _ \<Rightarrow> True | HttpResponse ok _ _ _ \<Rightarrow> \<not> ok)"

text \<open>A response with a structured application-level error, or with a result.\<close>

definition rpcErrorResponse :: "int \<Rightarrow> string \<Rightarrow> 'a fetch_outcome" where
  "rpcErrorResponse code message =
     HttpResponse True 200 ''OK''
       (Inr \<lparr> rs_result = None, rs_error = Some (code, message), rs_id = ''vtimestamp'' \<rparr>)"

definition rpcResultResponse :: "'a \<Rightarrow> 'a fetch_outcome" where
  "rpcResultResponse r =
     HttpResponse True 200 ''OK''
       (Inr \<lparr> rs_result = Some r, rs_error = None, rs_id = ''vtimestamp'' \<rparr>)"

section \<open>Concrete inputs\<close>

text \<open>Entry lists on the test network: a decodable record with an upper-case hash and
  a file size, a live pair of the two required fields, and variations of the pair.\<close>

definition ex_decodable :: "DataDescriptorWrapper list" where
  "ex_decodable =
     [chainEntry Testnet (sha256 (labels (VDXF_KEYS Testnet))) 0 (Message ''AB12''),
      chainEntry Testnet (title (labels (VDXF_KEYS Testnet))) 0 (Message ''doc1''),
      chainEntry Testnet (filesize (labels (VDXF_KEYS Testnet))) 0 (Message ''42'')]"

definition ex_live_pair :: "DataDescriptorWrapper list" where
  "ex_live_pair =
     [chainEntry Testnet (sha256 (labels (VDXF_KEYS Testnet))) 0 (Message ''ab12''),
      chainEntry Testnet (title (labels (VDXF_KEYS Testnet))) 0 (Message ''doc1'')]"

text \<open>The pair, then a live sha256 entry whose payload is a number.\<close>

definition ex_overwritten :: "DataDescriptorWrapper list" where
  "ex_overwritten =
     ex_live_pair @ [chainEntry Testnet (sha256 (labels (VDXF_KEYS Testnet))) 0 (Num 7)]"

text \<open>The pair, then a tombstoned sha256 entry (flags 32, null payload).\<close>

definition ex_tombstone_last :: "DataDescriptorWrapper list" where
  "ex_tombstone_last =
     ex_live_pair @ [chainEntry Testnet (sha256 (labels (VDXF_KEYS Testnet))) 32 Null]"

text \<open>The pair, then a live filesize entry with the message \<^verbatim>\<open>-5\<close>.\<close>

definition ex_negative_filesize :: "DataDescriptorWrapper list" where
  "ex_negative_filesize =
     ex_live_pair @ [chainEntry Testnet (filesize (labels (VDXF_KEYS Testnet))) 0 (Message ''-5'')]"

definition ex_input :: TimestampData where
  "ex_input = \<lparr> td_sha256 = ''ab12'', td_title = ''doc1'', td_description = Some '''',
                 td_filename = Some ''a.txt'', td_filesize = Some 1024 \<rparr>"

text \<open>A record with the two required fields only.\<close>

definition ex_plain_input :: TimestampData where
  "ex_plain_input = \<lparr> td_sha256 = ''ab12'', td_title = ''doc1'', td_description = None,
                       td_filename = None, td_filesize = None \<rparr>"

definition ex_identity :: "ContentMultiMap option \<Rightarrow> IdentityData" where
  "ex_identity cmm = \<lparr> id_version = 3, id_flags = 0, id_name = ''alice'',
       id_identityaddress = ''iAlice'', id_parent = ''iParent'', id_contentmultimap = cmm \<rparr>"

text \<open>A history of three updates: one without a content map, then the decodable
  record at height 5 and again at height 4.\<close>

definition ex_history :: "IdentityHistoryEntry list" where
  "ex_history =
     [\<lparr> he_identity = ex_identity None, he_blockhash = ''00aa'', he_height = 3,
        he_output_txid = ''t3'', he_output_voutnum = 0 \<rparr>,
      \<lparr> he_identity = ex_identity (Some [proofBasic (VDXF_KEYS Testnet) \<mapsto> ex_decodable]),
        he_blockhash = ''00bb'', he_height = 5, he_output_txid = ''t5'', he_output_voutnum = 0 \<rparr>,
      \<lparr> he_identity = ex_identity (Some [proofBasic (VDXF_KEYS Testnet) \<mapsto> ex_decodable]),
        he_blockhash = ''00cc'', he_height = 4, he_output_txid = ''t4'', he_output_voutnum = 0 \<rparr>]"

definition ex_record :: TimestampRecord where
  "ex_record =
     \<lparr> tr_data = \<lparr> td_sha256 = ''AB12'', td_title = ''doc1'', td_description = None,
                    td_filename = None, td_filesize = Some 42 \<rparr>,
       tr_blockhash = ''00bb'', tr_blockheight = 5, tr_blocktime = None, tr_txid = ''t5'' \<rparr>"

definition emptyTimestampStore :: timestamp_store where
  "emptyTimestampStore = \<lparr> pendingTimestampRequests = Map.empty, completedTimestamps = Map.empty \<rparr>"

definition emptyAuthStore :: auth_store where
  "emptyAuthStore = \<lparr> pendingChallenges = Map.empty, completedAuths = Map.empty \<rparr>"

text \<open>A request created at time 1000, a result stored at time 5000, a login completed
  at time 1000.\<close>

definition ex_pending_store :: timestamp_store where
  "ex_pending_store =
     createTimestampRequest_store 1000 ''iRequest'' ''iAlice'' ex_input emptyTimestampStore"

definition ex_completed_store :: timestamp_store where
  "ex_completed_store = snd (storeTimestampResult 5000 ''iRequest'' ''deadbeef'' ex_pending_store)"

definition ex_auth_store :: auth_store where
  "ex_auth_store =
     verifyLoginResponse_store 1000 ''iChallenge'' ''iAlice'' ''alice@'' emptyAuthStore"

text \<open>Two worlds: the primary endpoint times out, or it answers with error -5; the
  fallback endpoint answers with a result in both.\<close>

definition ex_world_timeout :: "(string, string) world" where
  "ex_world_timeout =
     \<lparr> respond = (\<lambda>k url request.
          if url = endpoint (VERUS_RPC Testnet)
          then FetchRejects ''The operation was aborted due to timeout''
          else rpcResultResponse ''identityhistory''),
       clock = (\<lambda>k. 1700000000000 + int k),
       fetches = [] \<rparr>"

definition ex_world_not_found :: "(string, string) world" where
  "ex_world_not_found =
     \<lparr> respond = (\<lambda>k url request.
          if url = endpoint (VERUS_RPC Testnet)
          then rpcErrorResponse (- 5) ''Identity not found''
          else rpcResultResponse ''identityhistory''),
       clock = (\<lambda>k. 1700000000000 + int k),
       fetches = [] \<rparr>"

section \<open>Lemmas: numbers and strings\<close>

lemma digitsOf_nonempty: "digitsOf n \<noteq> []"
  by (induction n rule: digitsOf.induct) (subst digitsOf.simps, simp)

lemma isDigit_char_of: "(d::nat) < 10 \<Longrightarrow> isDigit (char_of (48 + d))"
  by (simp add: isDigit_def Let_def)

lemma digitValue_char_of: "(d::nat) < 10 \<Longrightarrow> digitValue (char_of (48 + d)) = d"
  by (simp add: digitValue_def)

lemma digitsOf_all_digits: "\<forall>c \<in> set (digitsOf n). isDigit c"
proof (induction n rule: digitsOf.induct)
  case (1 n)
  show ?case
  proof (cases "n < 10")
    case True
    then show ?thesis by (subst digitsOf.simps) (simp add: isDigit_char_of)
  next
    case False
    have "n mod 10 < 10" by simp
    with False 1 show ?thesis
      by (subst digitsOf.simps) (simp add: isDigit_char_of)
  qed
qed

lemma decimalValue_snoc: "decimalValue (z @ [c]) = 10 * decimalValue z + digitValue c"
  by (simp add: decimalValue_def)

lemma decimalValue_digitsOf: "decimalValue (digitsOf n) = n"
proof (induction n rule: digitsOf.induct)
  case (1 n)
  show ?case
  proof (cases "n < 10")
    case True
    then show ?thesis
      by (subst digitsOf.simps) (simp add: decimalValue_def digitValue_char_of)
  next
    case False
    have m: "n mod 10 < 10" by simp
    from False 1 have ih: "decimalValue (digitsOf (n div 10)) = n div 10" by simp
    from False have "digitsOf n = digitsOf (n div 10) @ [char_of (48 + n mod 10)]"
      by (subst digitsOf.simps) simp
    then show ?thesis
      using ih m by (simp add: decimalValue_snoc digitValue_char_of)
  qed
qed

lemma isDigit_not_space: "isDigit c \<Longrightarrow> \<not> isStrWhiteSpaceChar c"
  by (auto simp: isDigit_def isStrWhiteSpaceChar_def Let_def)

lemma isDigit_not_sign: "isDigit c \<Longrightarrow> c \<noteq> CHR ''+'' \<and> c \<noteq> CHR ''-''"
  by (auto simp: isDigit_def Let_def)

lemma parseInt_digits:
  assumes "z \<noteq> []" and "\<forall>c \<in> set z. isDigit c"
  shows "parseInt z = Some (int (decimalValue z))"
proof -
  from assms obtain c r where z: "z = c # r" by (cases z) auto
  with assms have c: "isDigit c" by simp
  have dw: "dropWhile isStrWhiteSpaceChar z = z"
    using z c by (simp add: isDigit_not_space)
  have tw: "takeWhile isDigit z = z"
    using assms(2) by simp
  have sg: "(case z of [] \<Rightarrow> (1::int) | c # _ \<Rightarrow> if c = CHR ''-'' then - 1 else 1) = 1"
    using z isDigit_not_sign[OF c] by simp
  have rest: "(case z of [] \<Rightarrow> [] | c # r \<Rightarrow> if c = CHR ''+'' \<or> c = CHR ''-'' then r else z) = z"
    using z isDigit_not_sign[OF c] by simp
  show ?thesis
    unfolding parseInt_def Let_def dw sg rest tw using assms(1) by simp
qed

lemma parseInt_minus_digits:
  assumes "z \<noteq> []" and "\<forall>c \<in> set z. isDigit c"
  shows "parseInt (CHR ''-'' # z) = Some (- int (decimalValue z))"
proof -
  have ns: "\<not> isStrWhiteSpaceChar CHR ''-''"
    by (simp add: isStrWhiteSpaceChar_def)
  have tw: "takeWhile isDigit z = z"
    using assms(2) by simp
  show ?thesis
    unfolding parseInt_def using ns assms(1) by (simp add: Let_def tw)
qed

lemma parseInt_numberToString: "parseInt (numberToString n) = Some n"
proof (cases "n < 0")
  case True
  then show ?thesis
    by (simp add: numberToString_def parseInt_minus_digits digitsOf_nonempty
        digitsOf_all_digits decimalValue_digitsOf)
next
  case False
  then show ?thesis
    by (simp add: numberToString_def parseInt_digits digitsOf_nonempty
        digitsOf_all_digits decimalValue_digitsOf)
qed

section \<open>Lemmas: the decoding loop\<close>

lemma labelsApart_VDXF_KEYS: "labelsApart (VDXF_KEYS net)"
  by (cases net) (simp_all add: labelsApart_def VDXF_KEYS_def TESTNET_labels_def MAINNET_labels_def)

lemma parseStep_dead: "liveDescriptor keys w = None \<Longrightarrow> parseStep keys data w = data"
  by (auto simp: liveDescriptor_def parseStep_def split: option.splits if_splits)

lemma liveDescriptor_label:
  "liveDescriptor keys w = Some d \<Longrightarrow> \<exists>l. dd_label d = Some l \<and> l \<noteq> []"
  by (auto simp: liveDescriptor_def split: option.splits if_splits)

lemma liveDescriptor_SomeD:
  "liveDescriptor keys w = Some d \<Longrightarrow>
   w (dataDescriptor keys) = Some d \<and> \<not> isDeleted d \<and> (\<exists>l. dd_label d = Some l \<and> l \<noteq> [])"
  by (simp add: liveDescriptor_def split: option.splits if_splits)

lemma parseStep_live:
  assumes "liveDescriptor keys w = Some d" and "dd_label d = Some l"
  shows "parseStep keys data w =
     (if l = sha256 (labels keys) then data\<lparr>p_sha256 := extractStringValue d\<rparr>
      else if l = title (labels keys) then data\<lparr>p_title := extractStringValue d\<rparr>
      else if l = description (labels keys) then data\<lparr>p_description := extractStringValue d\<rparr>
      else if l = filename (labels keys) then data\<lparr>p_filename := extractStringValue d\<rparr>
      else if l = filesize (labels keys) then data\<lparr>p_filesize := extractNumberValue d\<rparr>
      else data)"
proof -
  from liveDescriptor_SomeD[OF assms(1)] assms(2)
  have w: "w (dataDescriptor keys) = Some d" and nd: "\<not> isDeleted d" and l: "l \<noteq> []"
    by auto
  show ?thesis
    unfolding parseStep_def by (simp only: w nd l assms(2) option.case if_False)
qed

lemma apart_title:
  "labelsApart keys \<Longrightarrow> l \<noteq> [] \<Longrightarrow> l = title (labels keys) \<Longrightarrow> l \<noteq> sha256 (labels keys)"
  unfolding labelsApart_def Let_def by auto

lemma apart_description:
  "labelsApart keys \<Longrightarrow> l \<noteq> [] \<Longrightarrow> l = description (labels keys) \<Longrightarrow>
   l \<noteq> sha256 (labels keys) \<and> l \<noteq> title (labels keys)"
  unfolding labelsApart_def Let_def by auto

lemma apart_filename:
  "labelsApart keys \<Longrightarrow> l \<noteq> [] \<Longrightarrow> l = filename (labels keys) \<Longrightarrow>
   l \<noteq> sha256 (labels keys) \<and> l \<noteq> title (labels keys) \<and> l \<noteq> description (labels keys)"
  unfolding labelsApart_def Let_def by auto

lemma apart_filesize:
  "labelsApart keys \<Longrightarrow> l \<noteq> [] \<Longrightarrow> l = filesize (labels keys) \<Longrightarrow>
   l \<noteq> sha256 (labels keys) \<and> l \<noteq> title (labels keys) \<and> l \<noteq> description (labels keys)
   \<and> l \<noteq> filename (labels keys)"
  unfolding labelsApart_def Let_def by auto

lemma emptyPartial_fields:
  "p_sha256 emptyPartial = None" "p_title emptyPartial = None" "p_description emptyPartial = None"
  "p_filename emptyPartial = None" "p_filesize emptyPartial = None"
  by (simp_all add: emptyPartial_def)

lemma step_sha256:
  "p_sha256 (parseStep keys data w) =
     (case liveDescriptor keys w of
        None \<Rightarrow> p_sha256 data
      | Some d \<Rightarrow> if dd_label d = Some (sha256 (labels keys)) then extractStringValue d else p_sha256 data)"
proof (cases "liveDescriptor keys w")
  case None
  then show ?thesis by (simp add: parseStep_dead)
next
  case (Some d)
  then obtain l where l: "dd_label d = Some l" "l \<noteq> []" using liveDescriptor_label by blast
  show ?thesis using Some l by (simp add: parseStep_live[OF Some l(1)])
qed

lemma step_title:
  assumes "labelsApart keys"
  shows "p_title (parseStep keys data w) =
     (case liveDescriptor keys w of
        None \<Rightarrow> p_title data
      | Some d \<Rightarrow> if dd_label d = Some (title (labels keys)) then extractStringValue d else p_title data)"
proof (cases "liveDescriptor keys w")
  case None
  then show ?thesis by (simp add: parseStep_dead)
next
  case (Some d)
  then obtain l where l: "dd_label d = Some l" "l \<noteq> []" using liveDescriptor_label by blast
  show ?thesis
  proof (cases "l = title (labels keys)")
    case True
    with apart_title[OF assms l(2)] Some l show ?thesis
      by (simp add: parseStep_live[OF Some l(1)])
  next
    case False
    with Some l show ?thesis
      by (simp add: parseStep_live[OF Some l(1)])
  qed
qed



lemma step_filesize:
  assumes "labelsApart keys"
  shows "p_filesize (parseStep keys data w) =
     (case liveDescriptor keys w of
        None \<Rightarrow> p_filesize data
      | Some d \<Rightarrow> if dd_label d = Some (filesize (labels keys)) then extractNumberValue d else p_filesize data)"
proof (cases "liveDescriptor keys w")
  case None
  then show ?thesis by (simp add: parseStep_dead)
next
  case (Some d)
  then obtain l where l: "dd_label d = Some l" "l \<noteq> []" using liveDescriptor_label by blast
  show ?thesis
  proof (cases "l = filesize (labels keys)")
    case True
    with apart_filesize[OF assms l(2)] Some l show ?thesis
      by (simp add: parseStep_live[OF Some l(1)])
  next
    case False
    with Some l show ?thesis
      by (simp add: parseStep_live[OF Some l(1)])
  qed
qed

text \<open>A field filled by a loop whose step only writes it for the live entries of one label.\<close>

lemma fold_field:
  assumes step: "\<And>data w. get (parseStep keys data w) =
     (case liveDescriptor keys w of
        None \<Rightarrow> get data
      | Some d \<Rightarrow> if dd_label d = Some l then ex d else get data)"
  shows "get (foldl (parseStep keys) data entries) =
     (case lastLabelled keys l entries of None \<Rightarrow> get data | Some d \<Rightarrow> ex d)"
proof (induction entries arbitrary: data)
  case Nil
  show ?case by simp
next
  case (Cons w rest)
  show ?case
    by (simp add: Cons.IH step split: option.splits)
qed

lemma loop_sha256:
  "p_sha256 (parseLoop keys entries) =
     (case lastLabelled keys (sha256 (labels keys)) entries of None \<Rightarrow> None | Some d \<Rightarrow> extractStringValue d)"
  unfolding parseLoop_def
  by (subst fold_field[where get = p_sha256 and ex = extractStringValue and l = "sha256 (labels keys)"])
     (simp_all add: step_sha256 emptyPartial_fields split: option.splits)

lemma loop_title:
  "labelsApart keys \<Longrightarrow> p_title (parseLoop keys entries) =
     (case lastLabelled keys (title (labels keys)) entries of None \<Rightarrow> None | Some d \<Rightarrow> extractStringValue d)"
  unfolding parseLoop_def
  by (subst fold_field[where get = p_title and ex = extractStringValue and l = "title (labels keys)"])
     (simp_all add: step_title emptyPartial_fields split: option.splits)



lemma loop_filesize:
  "labelsApart keys \<Longrightarrow> p_filesize (parseLoop keys entries) =
     (case lastLabelled keys (filesize (labels keys)) entries of None \<Rightarrow> None | Some d \<Rightarrow> extractNumberValue d)"
  unfolding parseLoop_def
  by (subst fold_field[where get = p_filesize and ex = extractNumberValue and l = "filesize (labels keys)"])
     (simp_all add: step_filesize emptyPartial_fields split: option.splits)

lemma parseStep_tombstoned: "tombstoned keys w \<Longrightarrow> parseStep keys data w = data"
  by (auto simp: tombstoned_def parseStep_def split: option.splits)

lemma foldl_filter_skip:
  assumes "\<And>a x. \<not> P x \<Longrightarrow> f a x = a"
  shows "foldl f a (filter P xs) = foldl f a xs"
  by (induction xs arbitrary: a) (simp_all add: assms)

lemma parseLoop_filter:
  "parseLoop keys (filter (\<lambda>w. \<not> tombstoned keys w) entries) = parseLoop keys entries"
  unfolding parseLoop_def by (rule foldl_filter_skip) (simp add: parseStep_tombstoned)

lemma parse_None_loop:
  "(parseTimestampData net entries = None) =
     (falsyString (p_sha256 (parseLoop (VDXF_KEYS net) entries)) \<or>
      falsyString (p_title (parseLoop (VDXF_KEYS net) entries)))"
  by (simp add: parseTimestampData_def Let_def)

lemma parse_SomeD:
  assumes "parseTimestampData net entries = Some d"
  shows "p_sha256 (parseLoop (VDXF_KEYS net) entries) = Some (td_sha256 d)"
    and "p_title (parseLoop (VDXF_KEYS net) entries) = Some (td_title d)"
    and "td_sha256 d \<noteq> []" and "td_title d \<noteq> []"
    and "td_description d = p_description (parseLoop (VDXF_KEYS net) entries)"
    and "td_filename d = p_filename (parseLoop (VDXF_KEYS net) entries)"
    and "td_filesize d = p_filesize (parseLoop (VDXF_KEYS net) entries)"
  using assms
  by (auto simp: parseTimestampData_def Let_def falsyString_def split: if_splits option.splits)


lemma toLowerCase_char_idem: "toLowerCase_char (toLowerCase_char c) = toLowerCase_char c"
proof -
  have "of_char c < (256::nat)" by simp
  then show ?thesis
    by (auto simp: toLowerCase_char_def Let_def)
qed

lemma toLowerCase_idem: "toLowerCase (toLowerCase s) = toLowerCase s"
  by (simp add: toLowerCase_def toLowerCase_char_idem)

lemma find_loop:
  "findTimestampByHash_loop net h history =
     List.find (\<lambda>r. toLowerCase (td_sha256 (tr_data r)) = h)
       (List.map_filter (parseHistoryEntry net) history)"
  by (induction history) (simp_all add: map_filter_simps split: option.splits)

lemma find_Some_ex:
  "x \<in> set xs \<Longrightarrow> P x \<Longrightarrow> \<exists>y. List.find P xs = Some y \<and> P y"
  by (induction xs) auto

section \<open>Lemmas: decoding what was encoded\<close>

lemma build_live:
  "l \<noteq> [] \<Longrightarrow> liveDescriptor keys (buildDataDescriptor keys l v m) =
     Some \<lparr> dd_version = 1, dd_flags = None,
            dd_objectdata = (case v of Number n \<Rightarrow> Message (numberToString n) | Str s \<Rightarrow> Message s),
            dd_label = Some l, dd_mimetype = Some m \<rparr>"
  by (cases v) (simp_all add: liveDescriptor_def buildDataDescriptor_def isDeleted_def)

lemma testnet_labels_nonempty:
  "sha256 (labels (VDXF_KEYS Testnet)) \<noteq> []" "title (labels (VDXF_KEYS Testnet)) \<noteq> []"
  "description (labels (VDXF_KEYS Testnet)) \<noteq> []" "filename (labels (VDXF_KEYS Testnet)) \<noteq> []"
  "filesize (labels (VDXF_KEYS Testnet)) \<noteq> []"
  by (simp_all add: VDXF_KEYS_def TESTNET_labels_def)

lemma step_build_sha256:
  "parseStep (VDXF_KEYS Testnet) data
     (buildDataDescriptor (VDXF_KEYS Testnet) (sha256 (labels (VDXF_KEYS Testnet))) (Str s) m) =
   data\<lparr>p_sha256 := Some s\<rparr>"
  by (simp add: parseStep_live[OF build_live[OF testnet_labels_nonempty(1)]] extractStringValue_def)

lemma step_build_title:
  "parseStep (VDXF_KEYS Testnet) data
     (buildDataDescriptor (VDXF_KEYS Testnet) (title (labels (VDXF_KEYS Testnet))) (Str s) m) =
   data\<lparr>p_title := Some s\<rparr>"
  using apart_title[OF labelsApart_VDXF_KEYS testnet_labels_nonempty(2) refl]
  by (simp add: parseStep_live[OF build_live[OF testnet_labels_nonempty(2)]] extractStringValue_def)

lemma step_build_description:
  "parseStep (VDXF_KEYS Testnet) data
     (buildDataDescriptor (VDXF_KEYS Testnet) (description (labels (VDXF_KEYS Testnet))) (Str s) m) =
   data\<lparr>p_description := Some s\<rparr>"
  using apart_description[OF labelsApart_VDXF_KEYS testnet_labels_nonempty(3) refl]
  by (simp add: parseStep_live[OF build_live[OF testnet_labels_nonempty(3)]] extractStringValue_def)

lemma step_build_filename:
  "parseStep (VDXF_KEYS Testnet) data
     (buildDataDescriptor (VDXF_KEYS Testnet) (filename (labels (VDXF_KEYS Testnet))) (Str s) m) =
   data\<lparr>p_filename := Some s\<rparr>"
  using apart_filename[OF labelsApart_VDXF_KEYS testnet_labels_nonempty(4) refl]
  by (simp add: parseStep_live[OF build_live[OF testnet_labels_nonempty(4)]] extractStringValue_def)

lemma step_build_filesize:
  "parseStep (VDXF_KEYS Testnet) data
     (buildDataDescriptor (VDXF_KEYS Testnet) (filesize (labels (VDXF_KEYS Testnet))) (Number n) m) =
   data\<lparr>p_filesize := Some n\<rparr>"
  using apart_filesize[OF labelsApart_VDXF_KEYS testnet_labels_nonempty(5) refl]
  by (simp add: parseStep_live[OF build_live[OF testnet_labels_nonempty(5)]] extractNumberValue_def
      parseInt_numberToString)

lemmas step_build = step_build_sha256 step_build_title step_build_description
  step_build_filename step_build_filesize

lemma carried_cases:
  "falsyString v \<Longrightarrow> carried v = None"
  "\<not> falsyString v \<Longrightarrow> carried v = Some (the v)"
  by (auto simp: carried_def falsyString_def split: option.splits)

lemma roundtrip_loop:
  "parseLoop (VDXF_KEYS Testnet) (buildEntries Testnet d) =
     \<lparr> p_sha256 = Some (td_sha256 d), p_title = Some (td_title d),
       p_description = carried (td_description d), p_filename = carried (td_filename d),
       p_filesize = td_filesize d \<rparr>"
proof -
  let ?K = "VDXF_KEYS Testnet"
  let ?d0 = "emptyPartial\<lparr>p_sha256 := Some (td_sha256 d), p_title := Some (td_title d)\<rparr>"
  let ?opt1 = "(if falsyString (td_description d) then []
         else [buildDataDescriptor ?K (description (labels ?K)) (Str (the (td_description d))) ''text/plain''])"
  let ?opt2 = "(if falsyString (td_filename d) then []
         else [buildDataDescriptor ?K (filename (labels ?K)) (Str (the (td_filename d))) ''text/plain''])"
  let ?opt3 = "(case td_filesize d of
           None \<Rightarrow> []
         | Some n \<Rightarrow> [buildDataDescriptor ?K (filesize (labels ?K)) (Number n) ''text/plain''])"
  have s1: "foldl (parseStep ?K) data ?opt1 = data\<lparr>p_description := carried (td_description d)\<rparr>"
    if "p_description data = None" for data
    using that by (simp add: step_build carried_cases)
  have s2: "foldl (parseStep ?K) data ?opt2 = data\<lparr>p_filename := carried (td_filename d)\<rparr>"
    if "p_filename data = None" for data
    using that by (simp add: step_build carried_cases)
  have s3: "foldl (parseStep ?K) data ?opt3 = data\<lparr>p_filesize := td_filesize d\<rparr>"
    if "p_filesize data = None" for data
    using that by (simp add: step_build split: option.splits)
  have "parseLoop ?K (buildEntries Testnet d) =
        foldl (parseStep ?K) (foldl (parseStep ?K) (foldl (parseStep ?K) ?d0 ?opt1) ?opt2) ?opt3"
    by (simp add: parseLoop_def buildEntries_def Let_def step_build)
  also have "\<dots> = ?d0\<lparr>p_description := carried (td_description d),
                        p_filename := carried (td_filename d), p_filesize := td_filesize d\<rparr>"
    by (simp add: s1 s2 s3 emptyPartial_def)
  finally show ?thesis by (simp add: emptyPartial_def)
qed

section \<open>Lemmas: the concrete inputs\<close>

lemmas codec_eval = parseTimestampData_def parseLoop_def parseStep_def chainEntry_def
  VDXF_KEYS_def TESTNET_labels_def MAINNET_labels_def isDeleted_def emptyPartial_def falsyString_def
  extractStringValue_def extractNumberValue_def lacksEntry_def tombstoned_def
  liveDescriptor_def lastStringValue_def lastNumberValue_def

lemmas parseInt_eval = parseInt_def isStrWhiteSpaceChar_def isDigit_def decimalValue_def
  digitValue_def Let_def

lemma decode_ex_decodable:
  "parseTimestampData Testnet ex_decodable =
   Some \<lparr> td_sha256 = ''AB12'', td_title = ''doc1'', td_description = None,
          td_filename = None, td_filesize = Some 42 \<rparr>"
  by (simp add: ex_decodable_def codec_eval parseInt_eval)

lemma decode_ex_live_pair:
  "parseTimestampData Testnet ex_live_pair =
   Some \<lparr> td_sha256 = ''ab12'', td_title = ''doc1'', td_description = None,
          td_filename = None, td_filesize = None \<rparr>"
  by (simp add: ex_live_pair_def codec_eval)

lemma lower_AB12: "toLowerCase ''AB12'' = ''ab12''"
  by code_simp

lemma lower_ab12: "toLowerCase ''ab12'' = ''ab12''"
  by (simp add: toLowerCase_def toLowerCase_char_def)

lemma decode_ex_history_1: "parseHistoryEntry Testnet (ex_history ! 1) = Some ex_record"
  by (simp add: ex_history_def parseHistoryEntry_def ex_identity_def decode_ex_decodable ex_record_def)
     (simp add: VDXF_KEYS_def ex_decodable_def)

lemma decode_ex_history:
  "List.map_filter (parseHistoryEntry Testnet) ex_history =
     [ex_record, ex_record\<lparr>tr_blockhash := ''00cc'', tr_blockheight := 4, tr_txid := ''t4''\<rparr>]"
  by (simp add: ex_history_def map_filter_simps parseHistoryEntry_def ex_identity_def
      decode_ex_decodable ex_record_def)
     (simp add: VDXF_KEYS_def ex_decodable_def)

section \<open>Lemmas: the RPC gateway\<close>

lemma fallback_configured: "fallbackEndpoint (VERUS_RPC net) \<noteq> []"
  by (cases net) (simp_all add: VERUS_RPC_def)

lemma fetches_logFetch: "fetches (logFetch url request w) = fetches w @ [(url, request)]"
  by (simp add: logFetch_def)

lemma rpcCallToEndpoint_logs:
  "snd (rpcCallToEndpoint url method params w) = logFetch url (rpcRequest w method params) w"
  by (simp add: rpcCallToEndpoint_def Let_def
      split: fetch_outcome.splits sum.splits option.splits prod.splits)

lemma rpcCallToEndpoint_transport:
  "transportFailure (respond w (length (fetches w)) url (rpcRequest w method params)) \<Longrightarrow>
   \<exists>reason. rpcCallToEndpoint url method params w =
      (Inl (Error reason), logFetch url (rpcRequest w method params) w)"
  by (auto simp: rpcCallToEndpoint_def transportFailure_def Let_def split: fetch_outcome.splits)

lemma rpcCallToEndpoint_rpc_error:
  "respond w (length (fetches w)) url (rpcRequest w method params) =
     HttpResponse True sc stx (Inr payload) \<Longrightarrow>
   rs_error payload = Some (code, message) \<Longrightarrow>
   rpcCallToEndpoint url method params w =
      (Inl (VerusRpcError code message), logFetch url (rpcRequest w method params) w)"
  by (simp add: rpcCallToEndpoint_def Let_def)

lemma rpcCallToEndpoint_result:
  "respond w (length (fetches w)) url (rpcRequest w method params) =
     HttpResponse True sc stx (Inr payload) \<Longrightarrow>
   rs_error payload = None \<Longrightarrow>
   rpcCallToEndpoint url method params w =
      (Inr (rs_result payload), logFetch url (rpcRequest w method params) w)"
  by (simp add: rpcCallToEndpoint_def Let_def)

section \<open>The claims\<close>

subsection \<open>C1: when decoding gives no record\<close>

text \<open>
  The statement "decodeRecord returns None iff the non-tombstoned entries lack a sha256
  or a title entry" fails on \<open>ex_overwritten\<close>: its non-tombstoned entries hold a sha256
  entry with a non-empty string and a title entry with a non-empty string, and the
  result is still \<open>None\<close>, because the last live sha256 entry carries a number.
\<close>

theorem parseTimestampData_lacks_counterexample:
  "\<not> ((parseTimestampData Testnet ex_overwritten = None) =
       (lacksEntry (VDXF_KEYS Testnet) (sha256 (labels (VDXF_KEYS Testnet))) ex_overwritten \<or>
        lacksEntry (VDXF_KEYS Testnet) (title (labels (VDXF_KEYS Testnet))) ex_overwritten))"
  by (simp add: ex_overwritten_def ex_live_pair_def codec_eval)

text \<open>
  C1, as the code has it: \<^verbatim>\<open>parseTimestampData\<close> returns no record exactly when the value
  extracted from the last live sha256-labelled entry, or from the last live title-labelled
  entry, is missing, undefined or the empty string. When it returns a record, the
  record's sha256 and title are those two values and both are non-empty: there is no
  partial record.
\<close>

theorem parseTimestampData_None_iff_last_values:
  "(parseTimestampData net entries = None) =
     (falsyString (lastStringValue (VDXF_KEYS net) (sha256 (labels (VDXF_KEYS net))) entries) \<or>
      falsyString (lastStringValue (VDXF_KEYS net) (title (labels (VDXF_KEYS net))) entries))
   \<and> (\<forall>d. parseTimestampData net entries = Some d \<longrightarrow>
         lastStringValue (VDXF_KEYS net) (sha256 (labels (VDXF_KEYS net))) entries = Some (td_sha256 d) \<and>
         lastStringValue (VDXF_KEYS net) (title (labels (VDXF_KEYS net))) entries = Some (td_title d) \<and>
         td_sha256 d \<noteq> [] \<and> td_title d \<noteq> [])"
proof (intro conjI allI impI)
  show "(parseTimestampData net entries = None) =
     (falsyString (lastStringValue (VDXF_KEYS net) (sha256 (labels (VDXF_KEYS net))) entries) \<or>
      falsyString (lastStringValue (VDXF_KEYS net) (title (labels (VDXF_KEYS net))) entries))"
    by (simp add: parse_None_loop lastStringValue_def loop_sha256
        loop_title[OF labelsApart_VDXF_KEYS])
next
  fix d assume d: "parseTimestampData net entries = Some d"
  show "lastStringValue (VDXF_KEYS net) (sha256 (labels (VDXF_KEYS net))) entries = Some (td_sha256 d)"
    using parse_SomeD(1)[OF d] by (simp add: lastStringValue_def loop_sha256)
  show "lastStringValue (VDXF_KEYS net) (title (labels (VDXF_KEYS net))) entries = Some (td_title d)"
    using parse_SomeD(2)[OF d]
    by (simp add: lastStringValue_def loop_title[OF labelsApart_VDXF_KEYS])
  show "td_sha256 d \<noteq> []" by (rule parse_SomeD(3)[OF d])
  show "td_title d \<noteq> []" by (rule parse_SomeD(4)[OF d])
qed

theorem parseTimestampData_None_iff_last_values_witness:
  "parseTimestampData Testnet ex_decodable =
     Some \<lparr> td_sha256 = ''AB12'', td_title = ''doc1'', td_description = None,
            td_filename = None, td_filesize = Some 42 \<rparr> \<and>
   lastStringValue (VDXF_KEYS Testnet) (sha256 (labels (VDXF_KEYS Testnet))) ex_decodable = Some ''AB12'' \<and>
   lastStringValue (VDXF_KEYS Testnet) (title (labels (VDXF_KEYS Testnet))) ex_decodable = Some ''doc1''"
  using parseTimestampData_None_iff_last_values[of Testnet ex_decodable]
  by (simp add: decode_ex_decodable)

subsection \<open>C2: decoding what was encoded\<close>

text \<open>
  The statement "for every TimestampData whose sha256 and title are set, decoding the
  encoded content map returns the input" fails on \<open>ex_plain_input\<close> under the main
  network's key set: its labels are empty strings, the decoding loop skips an entry
  whose label is empty, and so the entries just built decode to no record.
\<close>

theorem roundtrip_mainnet_counterexample:
  "td_sha256 ex_plain_input \<noteq> [] \<and> td_title ex_plain_input \<noteq> [] \<and>
   Option.bind (buildTimestampContentMap Mainnet ex_plain_input (proofBasic (VDXF_KEYS Mainnet)))
     (parseTimestampData Mainnet) = None \<and>
   Option.bind (buildTimestampContentMap Mainnet ex_plain_input (proofBasic (VDXF_KEYS Mainnet)))
     (parseTimestampData Mainnet) \<noteq> Some ex_plain_input"
  by (simp add: ex_plain_input_def buildTimestampContentMap_def buildEntries_def
      buildDataDescriptor_def codec_eval)

text \<open>
  C2, as the code has it: on the test network's key set, for every TimestampData whose
  sha256 and title are non-empty and whose file size, if any, is a safe integer (where
  the host prints it as plain decimal digits), \<^verbatim>\<open>parseTimestampData\<close> applied to the entry
  list that \<^verbatim>\<open>buildTimestampContentMap\<close> stores under the proof key returns the input
  restricted to what the wire format carries: every field as given, the file size read
  back from its decimal string as the same integer, and an optional string that was
  empty (and so not emitted) absent.
\<close>

theorem decode_encode_roundtrip:
  assumes "td_sha256 d \<noteq> []" and "td_title d \<noteq> []"
    and "\<forall>n. td_filesize d = Some n \<longrightarrow> isSafeInteger n"
  shows "Option.bind (buildTimestampContentMap Testnet d (proofBasic (VDXF_KEYS Testnet)))
           (parseTimestampData Testnet) = Some (wireView d)"
  using assms(1,2)
  by (simp add: buildTimestampContentMap_def parseTimestampData_def roundtrip_loop
      falsyString_def wireView_def)

theorem decode_encode_roundtrip_witness:
  "td_sha256 ex_input \<noteq> [] \<and> td_title ex_input \<noteq> [] \<and>
   td_filesize ex_input = Some 1024 \<and> isSafeInteger 1024 \<and>
   Option.bind (buildTimestampContentMap Testnet ex_input (proofBasic (VDXF_KEYS Testnet)))
     (parseTimestampData Testnet) =
   Some \<lparr> td_sha256 = ''ab12'', td_title = ''doc1'', td_description = None,
          td_filename = Some ''a.txt'', td_filesize = Some 1024 \<rparr>"
proof -
  have h1: "td_sha256 ex_input \<noteq> []" and h2: "td_title ex_input \<noteq> []"
    by (simp_all add: ex_input_def)
  have h3: "\<forall>n. td_filesize ex_input = Some n \<longrightarrow> isSafeInteger n"
    by (simp add: ex_input_def isSafeInteger_def MAX_SAFE_INTEGER_def)
  have v: "wireView ex_input =
        \<lparr> td_sha256 = ''ab12'', td_title = ''doc1'', td_description = None,
          td_filename = Some ''a.txt'', td_filesize = Some 1024 \<rparr>"
    by (simp add: wireView_def carried_def falsyString_def ex_input_def)
  have h4: "td_filesize ex_input = Some 1024" and h5: "isSafeInteger 1024"
    by (simp_all add: ex_input_def isSafeInteger_def MAX_SAFE_INTEGER_def)
  show ?thesis using h1 h2 h4 h5 decode_encode_roundtrip[OF h1 h2 h3] by (simp add: v)
qed

subsection \<open>C3: tombstoned entries\<close>

text \<open>
  The statement "a later tombstoned sha256 entry makes the whole record undecodable even
  when an earlier live sha256 entry exists" fails on \<open>ex_tombstone_last\<close>: its last entry
  is a tombstoned sha256 entry, and the record decodes, with the earlier live hash.
\<close>

theorem tombstone_undecodable_counterexample:
  "tombstoned (VDXF_KEYS Testnet) (last ex_tombstone_last) \<and>
   dd_label (the (last ex_tombstone_last (dataDescriptor (VDXF_KEYS Testnet)))) =
     Some (sha256 (labels (VDXF_KEYS Testnet))) \<and>
   parseTimestampData Testnet ex_tombstone_last \<noteq> None \<and>
   map_option td_sha256 (parseTimestampData Testnet ex_tombstone_last) = Some ''ab12''"
  by (simp add: ex_tombstone_last_def ex_live_pair_def codec_eval)

text \<open>
  C3, as the code has it: a tombstoned entry (null payload or flags 32) is skipped
  whatever its label. Decoding a list gives what decoding the list without its
  tombstoned entries gives, and a tombstoned entry anywhere in the list changes nothing:
  a later tombstoned sha256 entry leaves the value of an earlier live sha256 entry in place.
\<close>

theorem tombstones_are_skipped:
  "parseTimestampData net (filter (\<lambda>w. \<not> tombstoned (VDXF_KEYS net) w) entries) =
     parseTimestampData net entries
   \<and> (tombstoned (VDXF_KEYS net) w \<longrightarrow>
        parseTimestampData net (before @ w # after) = parseTimestampData net (before @ after))"
  by (simp add: parseTimestampData_def parseLoop_filter)
     (simp add: parseLoop_def parseStep_tombstoned)

theorem tombstones_are_skipped_witness:
  "tombstoned (VDXF_KEYS Testnet)
     (chainEntry Testnet (title (labels (VDXF_KEYS Testnet))) 32 (Message ''gone'')) \<and>
   parseTimestampData Testnet
     (ex_live_pair @ chainEntry Testnet (title (labels (VDXF_KEYS Testnet))) 32 (Message ''gone'') # []) =
   Some \<lparr> td_sha256 = ''ab12'', td_title = ''doc1'', td_description = None,
          td_filename = None, td_filesize = None \<rparr>"
proof -
  have h: "tombstoned (VDXF_KEYS Testnet)
     (chainEntry Testnet (title (labels (VDXF_KEYS Testnet))) 32 (Message ''gone''))"
    by (simp add: codec_eval)
  show ?thesis
    using h tombstones_are_skipped[of Testnet "[]"
        "chainEntry Testnet (title (labels (VDXF_KEYS Testnet))) 32 (Message ''gone'')"
        ex_live_pair "[]"]
    by (simp add: decode_ex_live_pair)
qed

subsection \<open>C4: polling a pending request\<close>

text \<open>
  C4: in the pending-timestamp registry, for a correlation id with a stored Pending
  entry that expires at \<open>t0 + 600\<close> seconds (created at \<open>t0\<close> with the TTL of ten
  minutes) and no Completed entry, \<^verbatim>\<open>getTimestampResult\<close> at \<open>t0 + 601\<close> seconds returns
  Expired and removes the Pending entry, and at \<open>t0 + 599\<close> seconds returns Pending and
  leaves the store as it is; for an id with neither a Pending nor a Completed entry it
  returns Expired at any time.
\<close>

theorem getTimestampResult_pending_ttl:
  "(pendingTimestampRequests st requestId = Some request \<and>
    pr_expiresAt request = t0 + 600 * 1000 \<and>
    completedTimestamps st requestId = None \<longrightarrow>
      getTimestampResult (t0 + 601 * 1000) requestId st =
        (\<lparr> status = Expired, txid = None \<rparr>,
         st\<lparr> pendingTimestampRequests := (pendingTimestampRequests st)(requestId := None) \<rparr>) \<and>
      pendingTimestampRequests (snd (getTimestampResult (t0 + 601 * 1000) requestId st)) requestId = None \<and>
      getTimestampResult (t0 + 599 * 1000) requestId st = (\<lparr> status = Pending, txid = None \<rparr>, st))
   \<and> (pendingTimestampRequests st requestId = None \<and> completedTimestamps st requestId = None \<longrightarrow>
      getTimestampResult now requestId st = (\<lparr> status = Expired, txid = None \<rparr>, st))"
  by (simp add: getTimestampResult_def)

theorem getTimestampResult_pending_ttl_witness:
  "getTimestampResult (1000 + 601 * 1000) ''iRequest'' ex_pending_store =
     (\<lparr> status = Expired, txid = None \<rparr>, emptyTimestampStore) \<and>
   getTimestampResult (1000 + 599 * 1000) ''iRequest'' ex_pending_store =
     (\<lparr> status = Pending, txid = None \<rparr>, ex_pending_store) \<and>
   getTimestampResult 1000 ''iNeverIssued'' ex_pending_store =
     (\<lparr> status = Expired, txid = None \<rparr>, ex_pending_store)"
proof -
  let ?request = "\<lparr> pr_requestId = ''iRequest'', pr_userIdentity = ''iAlice'',
             pr_timestampData = ex_input, pr_createdAt = 1000,
             pr_expiresAt = 1000 + 10 * 60 * 1000 \<rparr>"
  have h1: "pendingTimestampRequests ex_pending_store ''iRequest'' = Some ?request"
    by (simp add: ex_pending_store_def createTimestampRequest_store_def)
  have h2: "pr_expiresAt ?request = 1000 + 600 * 1000" by simp
  have h3: "completedTimestamps ex_pending_store ''iRequest'' = None"
    by (simp add: ex_pending_store_def createTimestampRequest_store_def emptyTimestampStore_def)
  have h4: "pendingTimestampRequests ex_pending_store ''iNeverIssued'' = None"
    and h5: "completedTimestamps ex_pending_store ''iNeverIssued'' = None"
    by (simp_all add: ex_pending_store_def createTimestampRequest_store_def emptyTimestampStore_def)
  have e: "ex_pending_store\<lparr> pendingTimestampRequests :=
              (pendingTimestampRequests ex_pending_store)(''iRequest'' := None) \<rparr> = emptyTimestampStore"
    by (simp add: ex_pending_store_def createTimestampRequest_store_def emptyTimestampStore_def)
  show ?thesis
    using getTimestampResult_pending_ttl[of ex_pending_store "''iRequest''" ?request 1000]
      getTimestampResult_pending_ttl[of ex_pending_store "''iNeverIssued''" ?request 1000 1000]
      h1 h2 h3 h4 h5
    by (simp add: e)
qed

subsection \<open>C5: the fallback discipline of the RPC gateway\<close>

text \<open>
  C5: for every method and parameter list, if the fetch to the primary endpoint fails
  for transport reasons (it rejects, as on a timeout or a refused connection, or the
  status is not 2xx), \<^verbatim>\<open>rpcCall\<close> makes exactly one more fetch, to the fallback endpoint,
  and returns what that call returns; when the fallback answers with a result, the
  result is returned and no error surfaces. If the primary endpoint answers with a
  structured error, that error is rethrown as the \<^verbatim>\<open>VerusRpcError\<close> it is and the only
  fetch made is the one to the primary endpoint.
\<close>

theorem rpcCall_fallback_discipline:
  "(let primary = endpoint (VERUS_RPC net);
        fallback = fallbackEndpoint (VERUS_RPC net);
        w1 = logFetch primary (rpcRequest w method params) w
    in (transportFailure (respond w (length (fetches w)) primary (rpcRequest w method params)) \<longrightarrow>
          rpcCall net method params w = rpcCallToEndpoint fallback method params w1 \<and>
          map fst (fetches (snd (rpcCall net method params w))) =
            map fst (fetches w) @ [primary, fallback] \<and>
          (\<forall>sc stx payload.
             respond w1 (length (fetches w1)) fallback (rpcRequest w1 method params) =
               HttpResponse True sc stx (Inr payload) \<and> rs_error payload = None \<longrightarrow>
             fst (rpcCall net method params w) = Inr (rs_result payload)))
     \<and> (\<forall>sc stx payload code message.
          respond w (length (fetches w)) primary (rpcRequest w method params) =
            HttpResponse True sc stx (Inr payload) \<and> rs_error payload = Some (code, message) \<longrightarrow>
          rpcCall net method params w = (Inl (VerusRpcError code message), w1) \<and>
          map fst (fetches (snd (rpcCall net method params w))) = map fst (fetches w) @ [primary]))"
proof -
  let ?primary = "endpoint (VERUS_RPC net)"
  let ?fallback = "fallbackEndpoint (VERUS_RPC net)"
  let ?w1 = "logFetch ?primary (rpcRequest w method params) w"
  have a: "rpcCall net method params w = rpcCallToEndpoint ?fallback method params ?w1"
    if "transportFailure (respond w (length (fetches w)) ?primary (rpcRequest w method params))"
  proof -
    from rpcCallToEndpoint_transport[OF that] obtain reason where
      "rpcCallToEndpoint ?primary method params w = (Inl (Error reason), ?w1)" by blast
    then show ?thesis by (simp add: rpcCall_def fallback_configured)
  qed
  have b: "map fst (fetches (snd (rpcCallToEndpoint ?fallback method params ?w1))) =
           map fst (fetches w) @ [?primary, ?fallback]"
    by (simp add: rpcCallToEndpoint_logs fetches_logFetch)
  have c: "rpcCall net method params w = (Inl (VerusRpcError code message), ?w1)"
    if "respond w (length (fetches w)) ?primary (rpcRequest w method params) =
            HttpResponse True sc stx (Inr payload)" and "rs_error payload = Some (code, message)"
    for sc stx payload code message
    using rpcCallToEndpoint_rpc_error[OF that] by (simp add: rpcCall_def)
  show ?thesis
    unfolding Let_def
  proof (intro conjI impI allI)
    assume t: "transportFailure (respond w (length (fetches w)) ?primary (rpcRequest w method params))"
    show "rpcCall net method params w = rpcCallToEndpoint ?fallback method params ?w1"
      by (rule a[OF t])
    show "map fst (fetches (snd (rpcCall net method params w))) =
            map fst (fetches w) @ [?primary, ?fallback]"
      by (simp only: a[OF t] b)
    fix sc stx payload
    assume "respond ?w1 (length (fetches ?w1)) ?fallback (rpcRequest ?w1 method params) =
               HttpResponse True sc stx (Inr payload) \<and> rs_error payload = None"
    then show "fst (rpcCall net method params w) = Inr (rs_result payload)"
      using rpcCallToEndpoint_result[where w = ?w1 and url = ?fallback and sc = sc and stx = stx
          and payload = payload]
      by (simp add: a[OF t])
  next
    fix sc stx payload code message
    assume r: "respond w (length (fetches w)) ?primary (rpcRequest w method params) =
            HttpResponse True sc stx (Inr payload) \<and> rs_error payload = Some (code, message)"
    then show "rpcCall net method params w = (Inl (VerusRpcError code message), ?w1)"
      using c by blast
    from r show "map fst (fetches (snd (rpcCall net method params w))) =
            map fst (fetches w) @ [?primary]"
      using c[of sc stx payload code message] by (simp add: fetches_logFetch)
  qed
qed

theorem rpcCall_fallback_discipline_witness:
  "transportFailure (respond ex_world_timeout 0 (endpoint (VERUS_RPC Testnet))
      (rpcRequest ex_world_timeout ''getidentityhistory'' [''alice@''])) \<and>
   fst (rpcCall Testnet ''getidentityhistory'' [''alice@''] ex_world_timeout) =
     Inr (Some ''identityhistory'') \<and>
   map fst (fetches (snd (rpcCall Testnet ''getidentityhistory'' [''alice@''] ex_world_timeout))) =
     [''https://api.verustest.net'', ''https://rpc.vrsc.syncproof.net''] \<and>
   fst (rpcCall Testnet ''getidentityhistory'' [''nobody@''] ex_world_not_found) =
     Inl (VerusRpcError (- 5) ''Identity not found'') \<and>
   map fst (fetches (snd (rpcCall Testnet ''getidentityhistory'' [''nobody@''] ex_world_not_found))) =
     [''https://api.verustest.net'']"
proof -
  have e: "endpoint (VERUS_RPC Testnet) = ''https://api.verustest.net''"
    and f: "fallbackEndpoint (VERUS_RPC Testnet) = ''https://rpc.vrsc.syncproof.net''"
    by (simp_all add: VERUS_RPC_def)
  have t: "transportFailure (respond ex_world_timeout (length (fetches ex_world_timeout))
      (endpoint (VERUS_RPC Testnet)) (rpcRequest ex_world_timeout ''getidentityhistory'' [''alice@'']))"
    by (simp add: ex_world_timeout_def transportFailure_def)
  let ?w1 = "logFetch (endpoint (VERUS_RPC Testnet))
      (rpcRequest ex_world_timeout ''getidentityhistory'' [''alice@'']) ex_world_timeout"
  have r: "respond ?w1 (length (fetches ?w1)) (fallbackEndpoint (VERUS_RPC Testnet))
      (rpcRequest ?w1 ''getidentityhistory'' [''alice@'']) =
      HttpResponse True 200 ''OK''
        (Inr \<lparr> rs_result = Some ''identityhistory'', rs_error = None, rs_id = ''vtimestamp'' \<rparr>)"
    by (simp add: logFetch_def ex_world_timeout_def e f rpcResultResponse_def)
  have n: "respond ex_world_not_found (length (fetches ex_world_not_found))
      (endpoint (VERUS_RPC Testnet)) (rpcRequest ex_world_not_found ''getidentityhistory'' [''nobody@'']) =
      HttpResponse True 200 ''OK''
        (Inr \<lparr> rs_result = None, rs_error = Some (- 5, ''Identity not found''), rs_id = ''vtimestamp'' \<rparr>)"
    by (simp add: ex_world_not_found_def rpcErrorResponse_def)
  have l0: "fetches ex_world_timeout = []" "fetches ex_world_not_found = []"
    by (simp_all add: ex_world_timeout_def ex_world_not_found_def)
  from rpcCall_fallback_discipline[of Testnet ex_world_timeout "''getidentityhistory''" "[''alice@'']"] t r
  have A: "fst (rpcCall Testnet ''getidentityhistory'' [''alice@''] ex_world_timeout) =
             Inr (Some ''identityhistory'')"
    and B: "map fst (fetches (snd (rpcCall Testnet ''getidentityhistory'' [''alice@''] ex_world_timeout))) =
             [''https://api.verustest.net'', ''https://rpc.vrsc.syncproof.net'']"
    unfolding Let_def by (auto simp: l0 e f)
  from rpcCall_fallback_discipline[of Testnet ex_world_not_found "''getidentityhistory''" "[''nobody@'']"] n
  have C: "fst (rpcCall Testnet ''getidentityhistory'' [''nobody@''] ex_world_not_found) =
             Inl (VerusRpcError (- 5) ''Identity not found'')"
    and D: "map fst (fetches (snd (rpcCall Testnet ''getidentityhistory'' [''nobody@''] ex_world_not_found))) =
             [''https://api.verustest.net'']"
    unfolding Let_def by (auto simp: l0 e f)
  from t have t0: "transportFailure (respond ex_world_timeout 0 (endpoint (VERUS_RPC Testnet))
      (rpcRequest ex_world_timeout ''getidentityhistory'' [''alice@'']))"
    by (simp add: l0)
  show ?thesis using t0 A B C D by simp
qed

subsection \<open>C6: looking a hash up in a history\<close>

text \<open>
  C6: for every history and target hash, \<^verbatim>\<open>findTimestampByHash\<close> lower-cases the target,
  walks the history in the order given, without sorting, and returns the first record
  that decodes and whose lower-cased sha256 equals the lower-cased target, else nothing;
  the case of the target does not matter; and a record stored in the history under any
  spelling of a hash is matched when the query is that hash in lower case.
\<close>

theorem findTimestampByHash_first_match:
  "findTimestampByHash net history h =
     List.find (\<lambda>r. toLowerCase (td_sha256 (tr_data r)) = toLowerCase h)
       (List.map_filter (parseHistoryEntry net) history)
   \<and> findTimestampByHash net history (toLowerCase h) = findTimestampByHash net history h
   \<and> (\<forall>entry r. entry \<in> set history \<and> parseHistoryEntry net entry = Some r \<longrightarrow>
        (\<exists>r'. findTimestampByHash net history (toLowerCase (td_sha256 (tr_data r))) = Some r' \<and>
              toLowerCase (td_sha256 (tr_data r')) = toLowerCase (td_sha256 (tr_data r))))"
proof (intro conjI allI impI)
  show "findTimestampByHash net history h =
     List.find (\<lambda>r. toLowerCase (td_sha256 (tr_data r)) = toLowerCase h)
       (List.map_filter (parseHistoryEntry net) history)"
    by (simp add: findTimestampByHash_def find_loop)
  show "findTimestampByHash net history (toLowerCase h) = findTimestampByHash net history h"
    by (simp add: findTimestampByHash_def toLowerCase_idem)
next
  fix entry r
  assume a: "entry \<in> set history \<and> parseHistoryEntry net entry = Some r"
  let ?P = "\<lambda>x. toLowerCase (td_sha256 (tr_data x)) = toLowerCase (td_sha256 (tr_data r))"
  from a have "r \<in> set (List.map_filter (parseHistoryEntry net) history)"
    by (force simp: map_filter_def)
  from find_Some_ex[of r _ ?P, OF this]
  obtain y where "List.find ?P (List.map_filter (parseHistoryEntry net) history) = Some y" and "?P y"
    by auto
  then show "\<exists>r'. findTimestampByHash net history (toLowerCase (td_sha256 (tr_data r))) = Some r' \<and>
              toLowerCase (td_sha256 (tr_data r')) = toLowerCase (td_sha256 (tr_data r))"
    by (simp add: findTimestampByHash_def find_loop toLowerCase_idem)
qed

theorem findTimestampByHash_first_match_witness:
  "ex_history ! 1 \<in> set ex_history \<and> parseHistoryEntry Testnet (ex_history ! 1) = Some ex_record \<and>
   td_sha256 (tr_data ex_record) = ''AB12'' \<and>
   findTimestampByHash Testnet ex_history ''ab12'' = Some ex_record"
proof -
  have m: "ex_history ! 1 \<in> set ex_history" by (simp add: ex_history_def)
  show ?thesis
    using findTimestampByHash_first_match[of Testnet ex_history "''ab12''"] m decode_ex_history_1
    by (simp add: decode_ex_history lower_ab12) (simp add: ex_record_def lower_AB12)
qed

subsection \<open>C7: the decoded file size\<close>

text \<open>
  The statement "a decoded filesize is a non-negative integer" fails on
  \<open>ex_negative_filesize\<close>: the record decodes and its file size is \<open>-5\<close>.
\<close>

theorem filesize_nonnegative_counterexample:
  "\<not> (case parseTimestampData Testnet ex_negative_filesize of
         None \<Rightarrow> True
       | Some d \<Rightarrow> (case td_filesize d of None \<Rightarrow> True | Some n \<Rightarrow> 0 \<le> n))"
  by (simp add: ex_negative_filesize_def ex_live_pair_def codec_eval parseInt_eval)

text \<open>
  C7, as the code has it: if \<^verbatim>\<open>parseTimestampData\<close> returns a record with a file size,
  that file size is the number extracted from the last live filesize-labelled entry:
  its numeric payload as it is, or what \<^verbatim>\<open>parseInt\<close> reads in base 10 from its message.
  Nothing restricts its sign.
\<close>

theorem filesize_is_last_extracted_number:
  assumes "parseTimestampData net entries = Some d" and "td_filesize d = Some n"
  shows "\<exists>descriptor.
           lastLabelled (VDXF_KEYS net) (filesize (labels (VDXF_KEYS net))) entries = Some descriptor \<and>
           (dd_objectdata descriptor = Num n \<or>
            (\<exists>msg. dd_objectdata descriptor = Message msg \<and> parseInt msg = Some n))"
proof -
  from parse_SomeD(7)[OF assms(1)] assms(2)
  have "p_filesize (parseLoop (VDXF_KEYS net) entries) = Some n" by simp
  then obtain descriptor where
    l: "lastLabelled (VDXF_KEYS net) (filesize (labels (VDXF_KEYS net))) entries = Some descriptor"
    and e: "extractNumberValue descriptor = Some n"
    by (auto simp: loop_filesize[OF labelsApart_VDXF_KEYS] split: option.splits)
  from e have "dd_objectdata descriptor = Num n \<or>
            (\<exists>msg. dd_objectdata descriptor = Message msg \<and> parseInt msg = Some n)"
    by (auto simp: extractNumberValue_def split: objectdata.splits)
  with l show ?thesis by blast
qed

theorem filesize_is_last_extracted_number_witness:
  "parseTimestampData Testnet ex_decodable =
     Some \<lparr> td_sha256 = ''AB12'', td_title = ''doc1'', td_description = None,
            td_filename = None, td_filesize = Some 42 \<rparr> \<and>
   (\<exists>descriptor.
      lastLabelled (VDXF_KEYS Testnet) (filesize (labels (VDXF_KEYS Testnet))) ex_decodable =
        Some descriptor \<and>
      (dd_objectdata descriptor = Num 42 \<or>
       (\<exists>msg. dd_objectdata descriptor = Message msg \<and> parseInt msg = Some 42)))"
proof -
  let ?d = "\<lparr> td_sha256 = ''AB12'', td_title = ''doc1'', td_description = None,
            td_filename = None, td_filesize = Some 42 \<rparr>"
  have h2: "td_filesize ?d = Some 42" by simp
  show ?thesis
    using decode_ex_decodable filesize_is_last_extracted_number[OF decode_ex_decodable h2]
    by simp
qed

subsection \<open>C8: reading a completed result\<close>

text \<open>
  The statement "a stored CompletedResult of the login registry is not deleted by a
  read, and polling it twice returns Completed both times" fails on \<open>ex_auth_store\<close>: the
  first poll of the status endpoint returns Completed and deletes the entry, the second
  returns Expired.
\<close>

theorem login_result_consumed_counterexample:
  "completedAuths ex_auth_store ''iChallenge'' \<noteq> None \<and>
   as_status (fst (authStatusGET ''iChallenge'' ex_auth_store)) = Completed \<and>
   completedAuths (snd (authStatusGET ''iChallenge'' ex_auth_store)) ''iChallenge'' = None \<and>
   as_status (fst (authStatusGET ''iChallenge'' (snd (authStatusGET ''iChallenge'' ex_auth_store)))) =
     Expired"
  by (simp add: ex_auth_store_def emptyAuthStore_def verifyLoginResponse_store_def authStatusGET_def
      getAuthResult_def isChallengeActive_def)

text \<open>
  C8, as the code has it. In the timestamp-creation registry a stored CompletedResult
  is not touched by a read: \<^verbatim>\<open>getTimestampResult\<close> returns Completed with its txid and the
  same store, so a second poll returns Completed again, and the sweep removes the entry
  exactly when its own TTL has lapsed. In the login registry \<^verbatim>\<open>getAuthResult\<close> leaves the
  entry in place only when called with \<open>consume = false\<close>; with the default
  \<open>consume = true\<close> it returns the result once and deletes the entry, so that the next
  read finds nothing; an entry that is not read is removed by the sweep exactly when its
  own TTL has lapsed.
\<close>

theorem completed_result_reads:
  "(completedTimestamps st requestId = Some done \<longrightarrow>
      getTimestampResult now requestId st = (\<lparr> status = Completed, txid = Some (ct_txid done) \<rparr>, st) \<and>
      fst (getTimestampResult now' requestId (snd (getTimestampResult now requestId st))) =
        \<lparr> status = Completed, txid = Some (ct_txid done) \<rparr> \<and>
      completedTimestamps (timestampSweep now st) requestId =
        (if now > ct_expiresAt done then None else Some done))
   \<and> (completedAuths ast challengeId = Some auth \<longrightarrow>
      getAuthResult challengeId False ast =
        (Some \<lparr> ar_identity = ca_identity auth, ar_friendlyName = ca_friendlyName auth \<rparr>, ast) \<and>
      getAuthResult challengeId True ast =
        (Some \<lparr> ar_identity = ca_identity auth, ar_friendlyName = ca_friendlyName auth \<rparr>,
         ast\<lparr> completedAuths := (completedAuths ast)(challengeId := None) \<rparr>) \<and>
      fst (getAuthResult challengeId True (snd (getAuthResult challengeId True ast))) = None \<and>
      completedAuths (authSweep now ast) challengeId =
        (if now > ca_expiresAt auth then None else Some auth))"
  by (simp add: getTimestampResult_def getAuthResult_def timestampSweep_def authSweep_def sweepMap_def)

theorem completed_result_reads_witness:
  "completedTimestamps ex_completed_store ''iRequest'' =
     Some \<lparr> ct_txid = ''deadbeef'', ct_completedAt = 5000, ct_expiresAt = 305000 \<rparr> \<and>
   completedAuths ex_auth_store ''iChallenge'' =
     Some \<lparr> ca_identity = ''iAlice'', ca_friendlyName = ''alice@'',
            ca_completedAt = 1000, ca_expiresAt = 301000 \<rparr> \<and>
   getTimestampResult 6000 ''iRequest'' ex_completed_store =
     (\<lparr> status = Completed, txid = Some ''deadbeef'' \<rparr>, ex_completed_store) \<and>
   fst (getTimestampResult 7000 ''iRequest''
         (snd (getTimestampResult 6000 ''iRequest'' ex_completed_store))) =
     \<lparr> status = Completed, txid = Some ''deadbeef'' \<rparr> \<and>
   getAuthResult ''iChallenge'' False ex_auth_store =
     (Some \<lparr> ar_identity = ''iAlice'', ar_friendlyName = ''alice@'' \<rparr>, ex_auth_store) \<and>
   fst (getAuthResult ''iChallenge'' True ex_auth_store) =
     Some \<lparr> ar_identity = ''iAlice'', ar_friendlyName = ''alice@'' \<rparr> \<and>
   fst (getAuthResult ''iChallenge'' True (snd (getAuthResult ''iChallenge'' True ex_auth_store))) = None"
proof -
  let ?done = "\<lparr> ct_txid = ''deadbeef'', ct_completedAt = 5000, ct_expiresAt = 305000 \<rparr>"
  let ?auth = "\<lparr> ca_identity = ''iAlice'', ca_friendlyName = ''alice@'',
            ca_completedAt = 1000, ca_expiresAt = 301000 \<rparr>"
  have h1: "completedTimestamps ex_completed_store ''iRequest'' = Some ?done"
    by (simp add: ex_completed_store_def storeTimestampResult_def)
  have h2: "completedAuths ex_auth_store ''iChallenge'' = Some ?auth"
    by (simp add: ex_auth_store_def verifyLoginResponse_store_def)
  note inst = completed_result_reads[of ex_completed_store "''iRequest''" ?done 6000 7000
        ex_auth_store "''iChallenge''" ?auth]
  from inst h1 have t1: "getTimestampResult 6000 ''iRequest'' ex_completed_store =
        (\<lparr> status = Completed, txid = Some (ct_txid ?done) \<rparr>, ex_completed_store)"
    and t2: "fst (getTimestampResult 7000 ''iRequest''
         (snd (getTimestampResult 6000 ''iRequest'' ex_completed_store))) =
        \<lparr> status = Completed, txid = Some (ct_txid ?done) \<rparr>"
    by blast+
  from inst h2 have a1: "getAuthResult ''iChallenge'' False ex_auth_store =
        (Some \<lparr> ar_identity = ca_identity ?auth, ar_friendlyName = ca_friendlyName ?auth \<rparr>,
         ex_auth_store)"
    and a2: "getAuthResult ''iChallenge'' True ex_auth_store =
        (Some \<lparr> ar_identity = ca_identity ?auth, ar_friendlyName = ca_friendlyName ?auth \<rparr>,
         ex_auth_store\<lparr> completedAuths := (completedAuths ex_auth_store)(''iChallenge'' := None) \<rparr>)"
    and a3: "fst (getAuthResult ''iChallenge'' True
         (snd (getAuthResult ''iChallenge'' True ex_auth_store))) = None"
    by blast+
  have t1': "getTimestampResult 6000 ''iRequest'' ex_completed_store =
     (\<lparr> status = Completed, txid = Some ''deadbeef'' \<rparr>, ex_completed_store)"
    using t1 by simp
  have t2': "fst (getTimestampResult 7000 ''iRequest''
         (snd (getTimestampResult 6000 ''iRequest'' ex_completed_store))) =
     \<lparr> status = Completed, txid = Some ''deadbeef'' \<rparr>"
    using t2 by simp
  have a1': "getAuthResult ''iChallenge'' False ex_auth_store =
     (Some \<lparr> ar_identity = ''iAlice'', ar_friendlyName = ''alice@'' \<rparr>, ex_auth_store)"
    using a1 by simp
  have a2': "fst (getAuthResult ''iChallenge'' True ex_auth_store) =
     Some \<lparr> ar_identity = ''iAlice'', ar_friendlyName = ''alice@'' \<rparr>"
    using a2 by simp
  show ?thesis
    by (intro conjI) (rule h1 h2 t1' t2' a1' a2' a3)+
qed

subsection \<open>C9: last write wins, also with an undefined value\<close>



subsection \<open>C10: storing a result\<close>

text \<open>
  C10: for every request id and txid, in every state of the registry (whether or not
  a Pending entry for the id exists), \<^verbatim>\<open>storeTimestampResult\<close> returns true, stores a
  Completed entry with that txid for five minutes and leaves no Pending entry for the
  id; a \<^verbatim>\<open>getTimestampResult\<close> on the resulting store returns Completed with that txid and
  does not change the store; a second store for the same id returns true as well and
  its txid replaces the first.
\<close>

theorem storeTimestampResult_always_stores:
  "fst (storeTimestampResult now requestId tx st) = True
   \<and> completedTimestamps (snd (storeTimestampResult now requestId tx st)) requestId =
       Some \<lparr> ct_txid = tx, ct_completedAt = now, ct_expiresAt = now + 5 * 60 * 1000 \<rparr>
   \<and> pendingTimestampRequests (snd (storeTimestampResult now requestId tx st)) requestId = None
   \<and> getTimestampResult now' requestId (snd (storeTimestampResult now requestId tx st)) =
       (\<lparr> status = Completed, txid = Some tx \<rparr>, snd (storeTimestampResult now requestId tx st))
   \<and> fst (storeTimestampResult now2 requestId tx2 (snd (storeTimestampResult now requestId tx st))) = True
   \<and> fst (getTimestampResult now' requestId
        (snd (storeTimestampResult now2 requestId tx2 (snd (storeTimestampResult now requestId tx st))))) =
       \<lparr> status = Completed, txid = Some tx2 \<rparr>"
  by (simp add: storeTimestampResult_def getTimestampResult_def)

theorem storeTimestampResult_always_stores_witness:
  "pendingTimestampRequests ex_pending_store ''iNeverIssued'' = None \<and>
   fst (storeTimestampResult 5000 ''iNeverIssued'' ''deadbeef'' ex_pending_store) = True \<and>
   fst (getTimestampResult 5000 ''iNeverIssued''
         (snd (storeTimestampResult 5000 ''iNeverIssued'' ''deadbeef'' ex_pending_store))) =
     \<lparr> status = Completed, txid = Some ''deadbeef'' \<rparr> \<and>
   fst (getTimestampResult 5000 ''iNeverIssued''
        (snd (storeTimestampResult 6000 ''iNeverIssued'' ''cafe''
           (snd (storeTimestampResult 5000 ''iNeverIssued'' ''deadbeef'' ex_pending_store))))) =
     \<lparr> status = Completed, txid = Some ''cafe'' \<rparr>"
  using storeTimestampResult_always_stores[of 5000 "''iNeverIssued''" "''deadbeef''"
      ex_pending_store 5000 6000 "''cafe''"]
  by (simp add: ex_pending_store_def createTimestampRequest_store_def emptyTimestampStore_def)

end
